theory Spec2Isabelle
  imports Main
begin

section \<open>JavaScript values\<close>

text \<open>
  The values the serializer handles. Numbers are modelled as integers (no claim depends on
  fractions). A \<open>Buffer\<close> is modelled by its \<open>toString(encoding)\<close> method: the argument
  is the encoding name (\<open>None\<close> when \<open>undefined\<close> is passed) and the result is
  \<open>None\<close> when Node rejects the encoding. A \<open>Date\<close> carries the result of
  \<open>toISOString()\<close> and of \<open>getFullYear()\<close>, \<open>getMonth()\<close>, \<open>getDate()\<close>.
  A typed array carries the name of its constructor. A function is modelled by the value
  its zero-argument call returns (the only call the serializer makes on a value); a
  symbol is an opaque identity. A model instance carries the name of its model (its
  constructor; a model is identified by its name), the values its \<open>get\<close> accessor
  returns, and the properties that \<open>inst[a]\<close> reads. Values are finite trees:
  cyclic data is outside the model.
\<close>

datatype jsval =
    VUndefined
  | VNull
  | VBool bool
  | VNum int
  | VStr string
  | VArray "jsval list"
  | VTypedArray string "jsval list"
  | VDate string nat nat nat
  | VBuffer "string option \<Rightarrow> string option"
  | VObject "(string \<times> jsval) list"
  | VFunction jsval
  | VSymbol nat
  | VInstance string "(string \<times> jsval) list" "(string \<times> jsval) list"

datatype error =
    EncodeError string
  | TypeError
  | InvalidModel
  | InvalidScheme
  | NotAnInstance string
  | UndefinedAttribute string string
  | InvalidPolicy

definition PLAIN_TYPES :: "string list" where
  "PLAIN_TYPES = [''string'', ''number'', ''boolean'']"

definition ARRAY_TYPES :: "string list" where
  "ARRAY_TYPES = [''Array'', ''Int8Array'', ''Uint8Array'', ''Uint8ClampedArray'',
     ''Int16Array'', ''Uint16Array'', ''Int32Array'', ''Uint32Array'',
     ''Float32Array'', ''Float64Array'']"

definition DOC_DB_TYPES :: "string list" where
  "DOC_DB_TYPES = [''JSON'', ''JSONB'', ''HSTORE'']"

fun typeof :: "jsval \<Rightarrow> string" where
  "typeof VUndefined = ''undefined''"
| "typeof VNull = ''object''"
| "typeof (VBool b) = ''boolean''"
| "typeof (VNum n) = ''number''"
| "typeof (VStr s) = ''string''"
| "typeof (VFunction f) = ''function''"
| "typeof (VSymbol s) = ''symbol''"
| "typeof v = ''object''"

text \<open>\<open>value.constructor.name\<close> when \<open>value\<close> is truthy and has a constructor,
  else \<open>null\<close> (\<open>None\<close>).\<close>

fun truthy :: "jsval \<Rightarrow> bool" where
  "truthy VUndefined = False"
| "truthy VNull = False"
| "truthy (VBool b) = b"
| "truthy (VNum n) = (n \<noteq> 0)"
| "truthy (VStr s) = (s \<noteq> [])"
| "truthy v = True"

fun constructor_name :: "jsval \<Rightarrow> string" where
  "constructor_name (VBool b) = ''Boolean''"
| "constructor_name (VNum n) = ''Number''"
| "constructor_name (VStr s) = ''String''"
| "constructor_name (VArray xs) = ''Array''"
| "constructor_name (VTypedArray c xs) = c"
| "constructor_name (VDate i y m d) = ''Date''"
| "constructor_name (VBuffer f) = ''Buffer''"
| "constructor_name (VObject kvs) = ''Object''"
| "constructor_name (VFunction f) = ''Function''"
| "constructor_name (VSymbol s) = ''Symbol''"
| "constructor_name (VInstance m fs ps) = m"
| "constructor_name v = []"

definition className :: "jsval \<Rightarrow> string option" where
  "className v = (if truthy v then Some (constructor_name v) else None)"

fun isDate :: "jsval \<Rightarrow> bool" where
  "isDate (VDate i y m d) = True"
| "isDate v = False"

fun isBuffer :: "jsval \<Rightarrow> bool" where
  "isBuffer (VBuffer f) = True"
| "isBuffer v = False"

section \<open>Objects as ordered key/value lists\<close>

text \<open>\<open>obj[k] = v\<close>: an existing key keeps its position, a new key is appended.\<close>

fun obj_set :: "string \<Rightarrow> 'v \<Rightarrow> (string \<times> 'v) list \<Rightarrow> (string \<times> 'v) list" where
  "obj_set k v [] = [(k, v)]"
| "obj_set k v ((k', v') # rest) =
     (if k = k' then (k, v) # rest else (k', v') # obj_set k v rest)"

text \<open>
  The own property \<open>k\<close> of \<open>obj\<close>: \<open>None\<close> when the object has no such key of its
  own.
\<close>

fun obj_get :: "(string \<times> 'v) list \<Rightarrow> string \<Rightarrow> 'v option" where
  "obj_get [] k = None"
| "obj_get ((k', v) # rest) k = (if k = k' then Some v else obj_get rest k)"

text \<open>
  \<open>obj[k]\<close> for an object literal, where the key is any string. The read finds the own
  property, or else the member that a plain object inherits from \<open>Object.prototype\<close>:
  under \<open>__proto__\<close> the prototype object itself, under the other keys of
  \<open>object_prototype_keys\<close> a built-in function; it is \<open>undefined\<close> (\<open>Absent\<close>)
  for every other key. \<open>Inherited k\<close> is the inherited member under the key \<open>k\<close>;
  members under different keys are different objects.
\<close>

datatype 'v property = Own 'v | Inherited string | Absent

definition object_prototype_functions :: "string list" where
  "object_prototype_functions =
     [''constructor'', ''__defineGetter__'', ''__defineSetter__'', ''hasOwnProperty'',
      ''__lookupGetter__'', ''__lookupSetter__'', ''isPrototypeOf'', ''propertyIsEnumerable'',
      ''toString'', ''valueOf'', ''toLocaleString'']"

definition object_prototype_keys :: "string list" where
  "object_prototype_keys = ''__proto__'' # object_prototype_functions"

definition prototype_read :: "string \<Rightarrow> 'v property" where
  "prototype_read k = (if k \<in> set object_prototype_keys then Inherited k else Absent)"

definition get_property :: "(string \<times> 'v) list \<Rightarrow> string \<Rightarrow> 'v property" where
  "get_property obj k = (case obj_get obj k of Some v \<Rightarrow> Own v | None \<Rightarrow> prototype_read k)"

text \<open>
  \<open>'' + v\<close> for an inherited member \<open>v\<close>: \<open>[object Object]\<close> for the prototype
  object, the text of a built-in function (as Node prints it) for a function;
  \<open>Object.prototype.constructor\<close> is the function \<open>Object\<close>.
\<close>

definition member_text :: "string \<Rightarrow> string" where
  "member_text k =
     (if k = ''__proto__'' then ''[object Object]''
      else ''function '' @ (if k = ''constructor'' then ''Object'' else k) @ ''() { [native code] }'')"

definition digit_of :: "nat \<Rightarrow> char" where
  "digit_of d = (''0123456789'' ! d)"

fun show_nat :: "nat \<Rightarrow> string" where
  "show_nat n = (if n < 10 then [digit_of n] else show_nat (n div 10) @ [digit_of (n mod 10)])"

declare show_nat.simps [simp del]

section \<open>The value encoder\<close>

text \<open>\<open>options.blobEncoding\<close>: reading a property of \<open>undefined\<close> or \<open>null\<close> is a
  TypeError; a missing key reads as \<open>undefined\<close>.\<close>

fun get_prop :: "jsval \<Rightarrow> string \<Rightarrow> error + jsval" where
  "get_prop VUndefined k = Inl TypeError"
| "get_prop VNull k = Inl TypeError"
| "get_prop (VObject kvs) k = Inr (case obj_get kvs k of None \<Rightarrow> VUndefined | Some v \<Rightarrow> v)"
| "get_prop v k = Inr VUndefined"

fun buffer_toString :: "(string option \<Rightarrow> string option) \<Rightarrow> jsval \<Rightarrow> error + jsval" where
  "buffer_toString f VUndefined = (case f None of None \<Rightarrow> Inl TypeError | Some s \<Rightarrow> Inr (VStr s))"
| "buffer_toString f (VStr e) = (case f (Some e) of None \<Rightarrow> Inl TypeError | Some s \<Rightarrow> Inr (VStr s))"
| "buffer_toString f v = Inl TypeError"

text \<open>
  The loops of the encoder. Each runs over the already encoded elements and stops at the
  first error, as the exception would: \<open>encodeElems\<close> is the \<open>for .. of\<close> loop
  pushing to \<open>result\<close>, \<open>encodeProps\<close> the \<open>for .. in\<close> loop with its
  \<open>hasOwnProperty\<close> test assigning \<open>result[key]\<close>. \<open>index_keys\<close> gives the own
  enumerable keys of a typed array, \<open>own_props\<close> those of a model instance: its
  methods are inherited, so the properties that hold a function are skipped.
\<close>

fun encodeElems :: "(error + jsval) list \<Rightarrow> jsval list \<Rightarrow> error + jsval list" where
  "encodeElems [] result = Inr result"
| "encodeElems (Inl err # es) result = Inl err"
| "encodeElems (Inr v # es) result = encodeElems es (result @ [v])"

fun encodeProps :: "(string \<times> (error + jsval)) list \<Rightarrow> (string \<times> jsval) list
    \<Rightarrow> error + (string \<times> jsval) list" where
  "encodeProps [] result = Inr result"
| "encodeProps ((key, Inl err) # rest) result = Inl err"
| "encodeProps ((key, Inr v) # rest) result = encodeProps rest (obj_set key v result)"

definition index_keys :: "'a list \<Rightarrow> (string \<times> 'a) list" where
  "index_keys xs = zip (map show_nat [0..<length xs]) xs"

definition own_props :: "(string \<times> jsval \<times> 'a) list \<Rightarrow> (string \<times> 'a) list" where
  "own_props ps =
     map (\<lambda>(k, x, v). (k, v)) (filter (\<lambda>(k, x, v). typeof x \<noteq> ''function'') ps)"

text \<open>
  \<open>encodeToJSON\<close>, one equation per kind of value; within an equation the tests are in
  the order of the source: plain type or \<open>null\<close>, class name in \<open>ARRAY_TYPES\<close>, Date,
  Buffer, \<open>typeof\<close> \<open>object\<close>, else the error. A model instance whose model is named
  like an array type is not iterable: a TypeError.
\<close>

primrec encodeToJSON :: "jsval \<Rightarrow> jsval \<Rightarrow> error + jsval" where
  "encodeToJSON VUndefined options = Inl (EncodeError (typeof VUndefined))"
| "encodeToJSON VNull options = Inr VNull"
| "encodeToJSON (VBool b) options = Inr (VBool b)"
| "encodeToJSON (VNum n) options = Inr (VNum n)"
| "encodeToJSON (VStr s) options = Inr (VStr s)"
| "encodeToJSON (VArray xs) options =
     (case encodeElems (map (\<lambda>e. encodeToJSON e options) xs) [] of
        Inl err \<Rightarrow> Inl err | Inr r \<Rightarrow> Inr (VArray r))"
| "encodeToJSON (VTypedArray c xs) options =
     (if c \<in> set ARRAY_TYPES
      then (case encodeElems (map (\<lambda>e. encodeToJSON e options) xs) [] of
              Inl err \<Rightarrow> Inl err | Inr r \<Rightarrow> Inr (VArray r))
      else (case encodeProps (index_keys (map (\<lambda>e. encodeToJSON e options) xs)) [] of
              Inl err \<Rightarrow> Inl err | Inr r \<Rightarrow> Inr (VObject r)))"
| "encodeToJSON (VDate isoString y m d) options = Inr (VStr isoString)"
| "encodeToJSON (VBuffer f) options =
     (case get_prop options ''blobEncoding'' of
        Inl err \<Rightarrow> Inl err
      | Inr enc \<Rightarrow> buffer_toString f enc)"
| "encodeToJSON (VObject kvs) options =
     (case encodeProps (map (map_prod id (\<lambda>x. encodeToJSON x options)) kvs) [] of
        Inl err \<Rightarrow> Inl err | Inr r \<Rightarrow> Inr (VObject r))"
| "encodeToJSON (VFunction f) options = Inl (EncodeError (typeof (VFunction f)))"
| "encodeToJSON (VSymbol s) options = Inl (EncodeError (typeof (VSymbol s)))"
| "encodeToJSON (VInstance m fs ps) options =
     (if m \<in> set ARRAY_TYPES then Inl TypeError
      else (case encodeProps
                 (own_props (map (map_prod id (\<lambda>x. (x, encodeToJSON x options))) ps)) [] of
              Inl err \<Rightarrow> Inl err | Inr r \<Rightarrow> Inr (VObject r)))"

section \<open>Model metadata, schemes and options\<close>

text \<open>
  An attribute descriptor of the data layer, with the members the serializer reads:
  \<open>fieldName\<close>, \<open>type.key\<close>, \<open>primaryKey\<close>, \<open>references\<close> and \<open>_autoGenerated\<close>
  (the last three by truthiness).
\<close>

record attribute =
  fieldName :: string
  typeKey :: string
  primaryKey :: bool
  references :: bool
  autoGenerated :: bool

text \<open>
  The serialization options. A key that is absent (or \<open>undefined\<close>) is \<open>None\<close>.
  The encoder takes the value and the encoder options; the attribute filter takes the
  attribute and the name of the model and answers \<open>False\<close> when it returns \<open>false\<close>.
\<close>

type_synonym encoder = "jsval \<Rightarrow> jsval \<Rightarrow> error + jsval"

record options =
  encoder :: "encoder option"
  undefinedPolicy :: "jsval option"
  copyJSONFields :: "jsval option"
  simpleDates :: "jsval option"
  encoderOptions :: "jsval option"
  attrFilter :: "(attribute \<Rightarrow> string \<Rightarrow> bool) option"

text \<open>
  A scheme, and a reference to a scheme as the constructor and the \<open>assoc\<close> map take
  it: falsy, a name, a list of names, a scheme object, or any other truthy value that
  is not an object.
\<close>

datatype scheme =
  Scheme
    (sch_include: "string list option")
    (sch_exclude: "string list option")
    (sch_assoc: "(string \<times> scheme_ref) list option")
    (sch_as: "(string \<times> string) list option")
    (sch_options: "options option")
    (sch_postSerialize: "(jsval \<Rightarrow> jsval \<Rightarrow> jsval) option")
and scheme_ref =
    RefNone
  | RefName string
  | RefNames "string list"
  | RefObject scheme
  | RefOther

definition empty_scheme :: scheme where
  "empty_scheme = Scheme None None None None None None"

text \<open>The static \<open>serializer\<close> property of a model.\<close>

record serializer_config =
  schemes :: "(string \<times> scheme) list option"
  defaultScheme :: "string option"
  model_options :: "options option"
  model_postSerialize :: "(scheme \<Rightarrow> jsval \<Rightarrow> jsval \<Rightarrow> string option \<Rightarrow> jsval) option"

text \<open>
  A model: its name, whether the data layer recognizes it as a model (the test of the
  constructor on \<open>sequelize.Model\<close> and the Sequelize version), its attribute
  descriptors and its associations (name and alias \<open>as\<close>), both in enumeration order,
  and its serializer configuration.
\<close>

record model =
  name :: string
  is_model :: bool
  rawAttributes :: "(string \<times> attribute) list"
  associations :: "(string \<times> string) list"
  serializer :: "serializer_config option"

record attr_groups =
  all :: "string list"
  virtual :: "string list"
  pk :: "string list"
  fk :: "string list"
  assoc_group :: "string list"
  blob :: "string list"
  doc :: "string list"
  auto :: "string list"

record engine =
  e_origOptions :: "options option"
  e_options :: options
  e_model :: model
  e_scheme :: scheme
  e_schemeName :: "string option"
  e_attr :: attr_groups
  e_attrList :: "string list"
  e_attrPath :: "string option"

definition policy_FAIL :: jsval where "policy_FAIL = VNum 1"
definition policy_SKIP :: jsval where "policy_SKIP = VNum 2"
definition policy_SET_NULL :: jsval where "policy_SET_NULL = VNum 3"

definition defaultOptions :: options where
  "defaultOptions = \<lparr>
     encoder = Some encodeToJSON,
     undefinedPolicy = Some policy_SKIP,
     copyJSONFields = Some (VBool True),
     simpleDates = Some (VBool True),
     encoderOptions = Some (VObject [(''blobEncoding'', VStr ''base64'')]),
     attrFilter = None \<rparr>"

section \<open>Attribute classification\<close>

definition empty_attr :: attr_groups where
  "empty_attr = \<lparr> all = [], virtual = [], pk = [], fk = [], assoc_group = [],
     blob = [], doc = [], auto = [] \<rparr>"

text \<open>The test \<open>attrFilter && attrFilter(a, model) === false\<close>.\<close>

definition attr_rejected :: "options \<Rightarrow> model \<Rightarrow> attribute \<Rightarrow> bool" where
  "attr_rejected opts m a = (case attrFilter opts of None \<Rightarrow> False | Some f \<Rightarrow> f a (name m) = False)"

text \<open>One round of the loop of \<open>_collectAttrs\<close> over the attribute descriptors.\<close>

definition collect_one :: "options \<Rightarrow> model \<Rightarrow> attr_groups \<Rightarrow> attribute \<Rightarrow> attr_groups" where
  "collect_one opts m attr a =
     (if attr_rejected opts m a
      then attr
      else
        (let typeName = typeKey a;
             attr = attr\<lparr> all := all attr @ [fieldName a] \<rparr>;
             attr = (if primaryKey a then attr\<lparr> pk := pk attr @ [fieldName a] \<rparr> else attr);
             attr = (if references a then attr\<lparr> fk := fk attr @ [fieldName a] \<rparr> else attr);
             attr = (if autoGenerated a then attr\<lparr> auto := auto attr @ [fieldName a] \<rparr> else attr)
         in if typeName = ''VIRTUAL'' then attr\<lparr> virtual := virtual attr @ [fieldName a] \<rparr>
            else if typeName = ''BLOB'' then attr\<lparr> blob := blob attr @ [fieldName a] \<rparr>
            else if typeName \<in> set DOC_DB_TYPES then attr\<lparr> doc := doc attr @ [fieldName a] \<rparr>
            else attr))"

definition collectAttrs :: "options \<Rightarrow> model \<Rightarrow> attr_groups" where
  "collectAttrs opts m =
     (let attr = foldl (collect_one opts m) empty_attr (map snd (rawAttributes m))
      in attr\<lparr> assoc_group := assoc_group attr @ map snd (associations m) \<rparr>)"

section \<open>Compiling the attribute list\<close>

text \<open>
  Modelled from the spec: \<open>_.uniq\<close> of the vendored lodash build, which is not among
  the sources; the spec has it deduplicate the list, stable, the first occurrence
  winning.
\<close>

fun uniq :: "'a list \<Rightarrow> 'a list" where
  "uniq [] = []"
| "uniq (x # xs) = x # uniq (filter (\<lambda>y. y \<noteq> x) xs)"

text \<open>
  \<open>this._attr[key]\<close> for the key of a selector. The eight groups are the own
  properties of \<open>this._attr\<close>, an object literal; any other key reads an inherited
  member or \<open>undefined\<close>.
\<close>

definition attr_lookup :: "attr_groups \<Rightarrow> string \<Rightarrow> string list property" where
  "attr_lookup attr key =
     (if key = ''all'' then Own (all attr)
      else if key = ''virtual'' then Own (virtual attr)
      else if key = ''pk'' then Own (pk attr)
      else if key = ''fk'' then Own (fk attr)
      else if key = ''assoc'' then Own (assoc_group attr)
      else if key = ''blob'' then Own (blob attr)
      else if key = ''doc'' then Own (doc attr)
      else if key = ''auto'' then Own (auto attr)
      else prototype_read key)"

text \<open>
  \<open>_expandAttributes\<close>. The entries of the expanded list are names, or what a selector
  of no group leaves there: \<open>concat\<close> appends its argument as one element when it is
  not an array, so the entry is \<open>undefined\<close>, or the member that \<open>this._attr\<close>
  inherits under the key. \<open>result.concat(result, group)\<close> is the result, followed by
  the result again, followed by the group.
\<close>

datatype entry = EName string | EUndefined | EMember string

fun expand_loop :: "attr_groups \<Rightarrow> string list \<Rightarrow> entry list \<Rightarrow> entry list" where
  "expand_loop attr [] result = result"
| "expand_loop attr (a # rest) result =
     (if take 1 a = ''@''
      then expand_loop attr rest
             (result @ result @
                (case attr_lookup attr (drop 1 a) of
                   Own names \<Rightarrow> map EName names
                 | Inherited key \<Rightarrow> [EMember key]
                 | Absent \<Rightarrow> [EUndefined]))
      else expand_loop attr rest (result @ [EName a]))"

definition expandAttributes :: "attr_groups \<Rightarrow> string list \<Rightarrow> entry list" where
  "expandAttributes attr list = uniq (expand_loop attr list [])"

text \<open>
  \<open>_compileAttributesList\<close>. \<open>mark_adhoc\<close> is the entry pushed for a name: the name
  itself, or the name behind a dot when it has none and is neither an attribute nor an
  association. Reading \<open>a[0]\<close> of an \<open>undefined\<close> entry that the exclude list does
  not hold is a TypeError. For an inherited member \<open>a[0]\<close> is \<open>undefined\<close> and
  neither group holds the member, so the entry pushed is \<open>'.' + a\<close>, a dot followed by
  the text of the member.
\<close>

definition mark_adhoc :: "attr_groups \<Rightarrow> string \<Rightarrow> string" where
  "mark_adhoc attr a =
     (if take 1 a \<noteq> ''.'' \<and> a \<notin> set (all attr) \<and> a \<notin> set (assoc_group attr)
      then ''.'' @ a else a)"

fun compile_loop :: "attr_groups \<Rightarrow> entry list \<Rightarrow> entry list \<Rightarrow> string list
    \<Rightarrow> error + string list" where
  "compile_loop attr [] exclude result = Inr result"
| "compile_loop attr (a # rest) exclude result =
     (if a \<notin> set exclude
      then (case a of
              EName n \<Rightarrow> compile_loop attr rest exclude (result @ [mark_adhoc attr n])
            | EUndefined \<Rightarrow> Inl TypeError
            | EMember key \<Rightarrow> compile_loop attr rest exclude (result @ [''.'' @ member_text key]))
      else compile_loop attr rest exclude result)"

definition expanded_include :: "attr_groups \<Rightarrow> scheme \<Rightarrow> entry list" where
  "expanded_include attr scheme =
     (case sch_include scheme of
        Some l \<Rightarrow> expandAttributes attr l
      | None \<Rightarrow> map EName (all attr))"

definition expanded_exclude :: "attr_groups \<Rightarrow> scheme \<Rightarrow> entry list" where
  "expanded_exclude attr scheme =
     (case sch_exclude scheme of
        Some l \<Rightarrow> expandAttributes attr l
      | None \<Rightarrow> [])"

definition compileAttributesList :: "attr_groups \<Rightarrow> scheme \<Rightarrow> error + string list" where
  "compileAttributesList attr scheme =
     compile_loop attr (expanded_include attr scheme) (expanded_exclude attr scheme) []"

section \<open>deepMerge\<close>

text \<open>
  \<open>deepMerge(sources)\<close> starts from an empty result and visits the own keys of each
  source in turn. For one key, with \<open>r\<close> the value the result already has under it
  (\<open>None\<close> when it has none) and \<open>v\<close> the value of the source: two arrays are
  concatenated; two values of \<open>typeof\<close> \<open>object\<close> are merged by
  \<open>deepMerge([r, v])\<close>; otherwise \<open>v\<close> is cloned into the result.

  Modelled from the spec: \<open>_.cloneDeep\<close> of the vendored lodash build, which is not
  among the sources: a deep clone, which on values without identity is the value itself.

  \<open>entries\<close> are the own enumerable keys of a value as \<open>for .. in\<close> visits them
  (keys are unique in an object). The bytes of a Buffer are not part of its model, so it
  is given no keys. \<open>merge_value v r\<close> is the new value of the key, by recursion on
  the source's value; \<open>deepMerge([r, v])\<close> copies the entries of \<open>r\<close> (each key is
  new to the empty result, so cloned) and then merges the entries of \<open>v\<close> into them.
\<close>

definition merge_key :: "(string \<times> 'v) list \<Rightarrow> string \<times> ('v option \<Rightarrow> 'v) \<Rightarrow> (string \<times> 'v) list" where
  "merge_key res kf = obj_set (fst kf) (snd kf (obj_get res (fst kf))) res"

definition chars_of :: "string \<Rightarrow> jsval list" where
  "chars_of s = map (\<lambda>c. VStr [c]) s"

fun entries :: "jsval \<Rightarrow> (string \<times> jsval) list" where
  "entries (VObject kvs) = kvs"
| "entries (VArray xs) = index_keys xs"
| "entries (VTypedArray c xs) = index_keys xs"
| "entries (VStr s) = index_keys (chars_of s)"
| "entries (VInstance m fs ps) = own_props (map (\<lambda>(k, x). (k, x, x)) ps)"
| "entries v = []"

primrec merge_value :: "jsval \<Rightarrow> jsval option \<Rightarrow> jsval" where
  "merge_value VUndefined r = VUndefined"
| "merge_value VNull r =
     (case r of
        None \<Rightarrow> VNull
      | Some rv \<Rightarrow> if typeof rv = ''object'' then VObject (entries rv) else VNull)"
| "merge_value (VBool b) r = VBool b"
| "merge_value (VNum n) r = VNum n"
| "merge_value (VStr s) r = VStr s"
| "merge_value (VArray xs) r =
     (case r of
        None \<Rightarrow> VArray xs
      | Some (VArray ys) \<Rightarrow> VArray (ys @ xs)
      | Some rv \<Rightarrow>
          if typeof rv = ''object''
          then VObject (foldl merge_key (entries rv) (index_keys (map merge_value xs)))
          else VArray xs)"
| "merge_value (VTypedArray c xs) r =
     (case r of
        None \<Rightarrow> VTypedArray c xs
      | Some rv \<Rightarrow>
          if typeof rv = ''object''
          then VObject (foldl merge_key (entries rv) (index_keys (map merge_value xs)))
          else VTypedArray c xs)"
| "merge_value (VDate isoString y m d) r =
     (case r of
        None \<Rightarrow> VDate isoString y m d
      | Some rv \<Rightarrow> if typeof rv = ''object'' then VObject (entries rv) else VDate isoString y m d)"
| "merge_value (VBuffer f) r =
     (case r of
        None \<Rightarrow> VBuffer f
      | Some rv \<Rightarrow> if typeof rv = ''object'' then VObject (entries rv) else VBuffer f)"
| "merge_value (VObject kvs) r =
     (case r of
        None \<Rightarrow> VObject kvs
      | Some rv \<Rightarrow>
          if typeof rv = ''object''
          then VObject (foldl merge_key (entries rv) (map (map_prod id merge_value) kvs))
          else VObject kvs)"
| "merge_value (VFunction f) r = VFunction f"
| "merge_value (VSymbol s) r = VSymbol s"
| "merge_value (VInstance m fs ps) r =
     (case r of
        None \<Rightarrow> VInstance m fs ps
      | Some rv \<Rightarrow>
          if typeof rv = ''object''
          then VObject (foldl merge_key (entries rv)
                          (own_props (map (map_prod id (\<lambda>x. (x, merge_value x))) ps)))
          else VInstance m fs ps)"

text \<open>\<open>deepMerge\<close> on plain values: the sources are visited in order.\<close>

definition deepMerge :: "jsval list \<Rightarrow> jsval" where
  "deepMerge sources =
     VObject (foldl (\<lambda>res object. foldl merge_key res (map (map_prod id merge_value) (entries object)))
                [] sources)"

text \<open>
  \<open>deepMerge\<close> on option objects and on schemes is the same loop, read key by key
  for the keys these objects have. A function (\<open>encoder\<close>, \<open>attrFilter\<close>,
  \<open>postSerialize\<close>) is of \<open>typeof\<close> \<open>function\<close>: the later source replaces it.
  \<open>include\<close> and \<open>exclude\<close> are arrays: concatenated. \<open>assoc\<close>, \<open>as\<close> and
  \<open>options\<close> are objects: merged. The values of \<open>as\<close> are strings: replaced.
\<close>

definition merge_fun :: "'f option \<Rightarrow> 'f option \<Rightarrow> 'f option" where
  "merge_fun v r = (case v of None \<Rightarrow> r | Some f \<Rightarrow> Some f)"

definition merge_field :: "jsval option \<Rightarrow> jsval option \<Rightarrow> jsval option" where
  "merge_field v r = (case v of None \<Rightarrow> r | Some x \<Rightarrow> Some (merge_value x r))"

definition merge_array :: "'a list option \<Rightarrow> 'a list option \<Rightarrow> 'a list option" where
  "merge_array v r =
     (case v of
        None \<Rightarrow> r
      | Some ys \<Rightarrow> (case r of None \<Rightarrow> Some ys | Some xs \<Rightarrow> Some (xs @ ys)))"

definition merge_options :: "options \<Rightarrow> options \<Rightarrow> options" where
  "merge_options v r = \<lparr>
     encoder = merge_fun (encoder v) (encoder r),
     undefinedPolicy = merge_field (undefinedPolicy v) (undefinedPolicy r),
     copyJSONFields = merge_field (copyJSONFields v) (copyJSONFields r),
     simpleDates = merge_field (simpleDates v) (simpleDates r),
     encoderOptions = merge_field (encoderOptions v) (encoderOptions r),
     attrFilter = merge_fun (attrFilter v) (attrFilter r) \<rparr>"

definition merge_object :: "('o \<Rightarrow> 'o \<Rightarrow> 'o) \<Rightarrow> 'o option \<Rightarrow> 'o option \<Rightarrow> 'o option" where
  "merge_object f v r =
     (case v of
        None \<Rightarrow> r
      | Some b \<Rightarrow> (case r of None \<Rightarrow> Some b | Some a \<Rightarrow> Some (f b a)))"

definition merge_as :: "(string \<times> string) list \<Rightarrow> (string \<times> string) list \<Rightarrow> (string \<times> string) list" where
  "merge_as v r = foldl (\<lambda>res (k, x). obj_set k x res) r v"

text \<open>
  The values of an \<open>assoc\<close> map are scheme references; \<open>RefNone\<close> there is \<open>null\<close>,
  which is of \<open>typeof\<close> \<open>object\<close> and has no keys. Two lists of names are
  concatenated. When both values are of \<open>typeof\<close> \<open>object\<close> and not both lists, the
  result is the object \<open>deepMerge\<close> builds from them; a list takes part in it with
  its index keys, which no reader of a scheme looks at, so the result is given as the
  scheme its other keys make up.
\<close>

primrec merge_scheme :: "scheme \<Rightarrow> scheme \<Rightarrow> scheme"
  and merge_ref :: "scheme_ref \<Rightarrow> scheme_ref option \<Rightarrow> scheme_ref"
where
  "merge_scheme (Scheme inc exc asc ren opts post) res =
     Scheme
       (merge_array inc (sch_include res))
       (merge_array exc (sch_exclude res))
       (case map_option (map (map_prod id merge_ref)) asc of
          None \<Rightarrow> sch_assoc res
        | Some b \<Rightarrow>
            (case sch_assoc res of
               None \<Rightarrow> asc
             | Some a \<Rightarrow> Some (foldl merge_key a b)))
       (merge_object merge_as ren (sch_as res))
       (merge_object merge_options opts (sch_options res))
       (merge_fun post (sch_postSerialize res))"
| "merge_ref RefNone r =
     (case r of
        Some (RefObject s) \<Rightarrow> RefObject s
      | Some (RefNames xs) \<Rightarrow> RefObject (Scheme None None None None None None)
      | Some RefNone \<Rightarrow> RefObject (Scheme None None None None None None)
      | _ \<Rightarrow> RefNone)"
| "merge_ref (RefName n) r = RefName n"
| "merge_ref (RefNames ys) r =
     (case r of
        Some (RefNames xs) \<Rightarrow> RefNames (xs @ ys)
      | Some (RefObject s) \<Rightarrow> RefObject s
      | Some RefNone \<Rightarrow> RefObject (Scheme None None None None None None)
      | _ \<Rightarrow> RefNames ys)"
| "merge_ref (RefObject s) r =
     (case r of
        Some (RefObject s1) \<Rightarrow> RefObject (merge_scheme s s1)
      | Some (RefNames xs) \<Rightarrow> RefObject s
      | Some RefNone \<Rightarrow> RefObject s
      | _ \<Rightarrow> RefObject s)"
| "merge_ref RefOther r = RefOther"

text \<open>
  \<open>deepMerge\<close> of the schemes a list of names selects; \<open>None\<close> is a source
  without keys of its own to enumerate (see \<open>merge_source\<close> below).
\<close>

definition deepMerge_schemes :: "scheme option list \<Rightarrow> scheme" where
  "deepMerge_schemes sources =
     foldl (\<lambda>res object. case object of None \<Rightarrow> res | Some s \<Rightarrow> merge_scheme s res)
       empty_scheme sources"

section \<open>Resolving the options\<close>

text \<open>
  Modelled from the spec: \<open>_.defaultsDeep\<close> of the vendored lodash build, which is not
  among the sources. The spec has the options resolved by deep-merging the sources in
  precedence order, highest first: a key that a source sets hides the same key of every
  later source, nested objects are merged key-wise, and a later source only fills in
  what is still \<open>undefined\<close>. The result is a fresh object. \<open>defaults_value d s\<close> is
  the value of a key that has \<open>d\<close> so far and \<open>s\<close> in the next source.
\<close>

primrec defaults_value :: "jsval \<Rightarrow> jsval \<Rightarrow> jsval" where
  "defaults_value VUndefined s = s"
| "defaults_value VNull s = VNull"
| "defaults_value (VBool b) s = VBool b"
| "defaults_value (VNum n) s = VNum n"
| "defaults_value (VStr x) s = VStr x"
| "defaults_value (VArray xs) s = VArray xs"
| "defaults_value (VTypedArray c xs) s = VTypedArray c xs"
| "defaults_value (VDate isoString y m d) s = VDate isoString y m d"
| "defaults_value (VBuffer f) s = VBuffer f"
| "defaults_value (VObject kvs) s =
     (case s of
        VObject skvs \<Rightarrow>
          VObject (map (\<lambda>(k, f). (k, f (case obj_get skvs k of None \<Rightarrow> VUndefined | Some v \<Rightarrow> v)))
                       (map (map_prod id defaults_value) kvs)
                   @ filter (\<lambda>(k, v). obj_get kvs k = None) skvs)
      | _ \<Rightarrow> VObject kvs)"
| "defaults_value (VFunction f) s = VFunction f"
| "defaults_value (VSymbol x) s = VSymbol x"
| "defaults_value (VInstance m fs ps) s = VInstance m fs ps"

definition defaults_field :: "jsval option \<Rightarrow> jsval option \<Rightarrow> jsval option" where
  "defaults_field d s =
     (case d of
        None \<Rightarrow> s
      | Some dv \<Rightarrow> Some (defaults_value dv (case s of None \<Rightarrow> VUndefined | Some sv \<Rightarrow> sv)))"

definition defaults_fun :: "'f option \<Rightarrow> 'f option \<Rightarrow> 'f option" where
  "defaults_fun d s = (case d of None \<Rightarrow> s | Some f \<Rightarrow> Some f)"

definition no_options :: options where
  "no_options = \<lparr> encoder = None, undefinedPolicy = None, copyJSONFields = None,
     simpleDates = None, encoderOptions = None, attrFilter = None \<rparr>"

definition defaults_options :: "options \<Rightarrow> options option \<Rightarrow> options" where
  "defaults_options dest source =
     (case source of
        None \<Rightarrow> dest
      | Some src \<Rightarrow> \<lparr>
          encoder = defaults_fun (encoder dest) (encoder src),
          undefinedPolicy = defaults_field (undefinedPolicy dest) (undefinedPolicy src),
          copyJSONFields = defaults_field (copyJSONFields dest) (copyJSONFields src),
          simpleDates = defaults_field (simpleDates dest) (simpleDates src),
          encoderOptions = defaults_field (encoderOptions dest) (encoderOptions src),
          attrFilter = defaults_fun (attrFilter dest) (attrFilter src) \<rparr>)"

definition defaultsDeep :: "options option list \<Rightarrow> options" where
  "defaultsDeep sources = foldl defaults_options no_options sources"

section \<open>Constructing a serializer\<close>

text \<open>
  \<open>model.serializer.schemes[scheme] || null\<close>, the scheme map being an object
  literal whose own values are scheme objects: the read finds the scheme, an inherited
  member (truthy), or nothing, and then the result is \<open>null\<close> (\<open>Absent\<close>).
\<close>

definition getSchemeFromModel :: "model \<Rightarrow> string \<Rightarrow> scheme property" where
  "getSchemeFromModel m scheme =
     (case serializer m of
        None \<Rightarrow> Absent
      | Some cfg \<Rightarrow>
          (case schemes cfg of
             None \<Rightarrow> Absent
           | Some ss \<Rightarrow> get_property ss scheme))"

fun join :: "string list \<Rightarrow> string \<Rightarrow> string" where
  "join [] sep = []"
| "join [x] sep = x"
| "join (x # y # rest) sep = x @ sep @ join (y # rest) sep"

text \<open>
  The guard \<open>!scheme || typeof(scheme) !== 'object'\<close> of the constructor, applied to
  what a read of the scheme map gives: \<open>None\<close> when the guard rejects it. A scheme
  passes. \<open>undefined\<close>, \<open>null\<close> and an inherited function do not. The inherited
  \<open>Object.prototype\<close> is an object and passes; it has none of the keys
  \<open>include\<close>, \<open>exclude\<close>, \<open>assoc\<close>, \<open>as\<close>, \<open>options\<close>,
  \<open>postSerialize\<close>, so as a scheme it reads as the empty scheme.
\<close>

definition as_scheme :: "scheme property \<Rightarrow> scheme option" where
  "as_scheme p =
     (case p of
        Own s \<Rightarrow> Some s
      | Inherited key \<Rightarrow> (if key = ''__proto__'' then Some empty_scheme else None)
      | Absent \<Rightarrow> None)"

text \<open>
  A source of \<open>deepMerge\<close> read from the scheme map: the loop over the keys of
  \<open>undefined\<close>, of a function or of \<open>Object.prototype\<close> visits no key, so each of
  them is a source without keys (\<open>None\<close>).
\<close>

definition merge_source :: "scheme property \<Rightarrow> scheme option" where
  "merge_source p = (case p of Own s \<Rightarrow> Some s | Inherited key \<Rightarrow> None | Absent \<Rightarrow> None)"

text \<open>
  The scheme resolution of the constructor: the name of the scheme, and the scheme
  (\<open>None\<close> when it comes out \<open>null\<close>, \<open>undefined\<close> or not an object, which the
  constructor rejects). \<open>default\<close> is not a key of \<open>Object.prototype\<close>, so
  \<open>schemes.default\<close> is an own property or \<open>undefined\<close>.
\<close>

definition resolve_scheme :: "model \<Rightarrow> scheme_ref \<Rightarrow> string option \<times> scheme option" where
  "resolve_scheme m scheme =
     (case scheme of
        RefNames names \<Rightarrow>
          (Some (join names ''_''),
           (case serializer m of
              None \<Rightarrow> None
            | Some cfg \<Rightarrow>
                (case schemes cfg of
                   None \<Rightarrow> None
                 | Some ss \<Rightarrow>
                     Some (deepMerge_schemes
                             (map (\<lambda>schemeName. merge_source (get_property ss schemeName)) names)))))
      | RefName n \<Rightarrow> (Some n, as_scheme (getSchemeFromModel m n))
      | RefNone \<Rightarrow>
          (case serializer m of
             Some cfg \<Rightarrow>
               (let ss = (case schemes cfg of None \<Rightarrow> [] | Some x \<Rightarrow> x)
                in (case defaultScheme cfg of
                      Some (c # cs) \<Rightarrow> (Some (c # cs), as_scheme (get_property ss (c # cs)))
                    | _ \<Rightarrow>
                        (case obj_get ss ''default'' of
                           Some d \<Rightarrow> (Some ''default'', Some d)
                         | None \<Rightarrow> (None, Some empty_scheme))))
           | None \<Rightarrow> (None, Some empty_scheme))
      | RefObject s \<Rightarrow> (None, Some s)
      | RefOther \<Rightarrow> (None, None))"

text \<open>
  \<open>new Serializer(model, scheme, options)\<close>. \<open>defaults\<close> is the process-wide
  \<open>_defaultOptions\<close> object as it is when the constructor runs.
\<close>

definition Serializer :: "options \<Rightarrow> model \<Rightarrow> scheme_ref \<Rightarrow> options option \<Rightarrow> error + engine" where
  "Serializer defaults m scheme opts =
     (if \<not> is_model m then Inl InvalidModel
      else
        (case resolve_scheme m scheme of
           (schemeName, None) \<Rightarrow> Inl InvalidScheme
         | (schemeName, Some sch) \<Rightarrow>
             (let eff = defaultsDeep
                          [opts, sch_options sch,
                           (case serializer m of None \<Rightarrow> None | Some cfg \<Rightarrow> model_options cfg),
                           Some defaults];
                  attr = collectAttrs eff m
              in (case compileAttributesList attr sch of
                    Inl err \<Rightarrow> Inl err
                  | Inr attrList \<Rightarrow>
                      Inr \<lparr> e_origOptions = opts, e_options = eff, e_model = m, e_scheme = sch,
                            e_schemeName = schemeName, e_attr = attr, e_attrList = attrList,
                            e_attrPath = None \<rparr>))))"

section \<open>Serializing an instance\<close>

text \<open>
  What a serialization run reads besides its arguments: the process-wide default options
  (a child serializer is constructed while the run is under way) and the model of each
  instance (\<open>inst.constructor\<close>, or \<open>inst.Model\<close> before Sequelize 4).
\<close>

record run_context =
  ctx_defaults :: options
  ctx_models :: "string \<Rightarrow> model"

type_synonym cache = "(string \<times> engine) list option"

fun isModelInstance :: "jsval \<Rightarrow> bool" where
  "isModelInstance (VInstance m fs ps) = True"
| "isModelInstance v = False"

fun isSpecificModelInstance :: "jsval \<Rightarrow> model \<Rightarrow> bool" where
  "isSpecificModelInstance (VInstance m fs ps) mdl = (m = name mdl)"
| "isSpecificModelInstance v mdl = False"

definition getModelFromInstance :: "run_context \<Rightarrow> jsval \<Rightarrow> model" where
  "getModelFromInstance ctx inst = ctx_models ctx (constructor_name inst)"

fun is_undefined :: "jsval \<Rightarrow> bool" where
  "is_undefined VUndefined = True"
| "is_undefined v = False"

fun is_array :: "jsval \<Rightarrow> bool" where
  "is_array (VArray xs) = True"
| "is_array v = False"

fun elements :: "jsval \<Rightarrow> jsval list" where
  "elements (VArray xs) = xs"
| "elements v = []"

text \<open>\<open>inst.get(a)\<close> and \<open>inst[a]\<close>; a missing key reads as \<open>undefined\<close>.\<close>

fun inst_get :: "jsval \<Rightarrow> string \<Rightarrow> jsval" where
  "inst_get (VInstance m fs ps) a = (case obj_get fs a of None \<Rightarrow> VUndefined | Some v \<Rightarrow> v)"
| "inst_get v a = VUndefined"

fun inst_prop :: "jsval \<Rightarrow> string \<Rightarrow> jsval" where
  "inst_prop (VInstance m fs ps) a = (case obj_get ps a of None \<Rightarrow> VUndefined | Some v \<Rightarrow> v)"
| "inst_prop v a = VUndefined"

fun call_if_function :: "jsval \<Rightarrow> jsval" where
  "call_if_function (VFunction r) = r"
| "call_if_function v = v"

text \<open>
  The head of the loop body of \<open>serialize\<close>: the attribute name with its dot
  stripped where the source strips it, the raw value, and the output key.
\<close>

definition is_field :: "engine \<Rightarrow> string \<Rightarrow> bool" where
  "is_field e a = (take 1 a \<noteq> ''.'' \<and> a \<in> set (all (e_attr e)))"

definition attr_name :: "engine \<Rightarrow> string \<Rightarrow> string" where
  "attr_name e a = (if is_field e a then a else if take 1 a = ''.'' then drop 1 a else a)"

definition raw_value :: "engine \<Rightarrow> jsval \<Rightarrow> string \<Rightarrow> jsval" where
  "raw_value e inst a =
     (if is_field e a then inst_get inst a
      else call_if_function (inst_prop inst (attr_name e a)))"

definition output_name :: "engine \<Rightarrow> string \<Rightarrow> string" where
  "output_name e a =
     (case (case sch_as (e_scheme e) of None \<Rightarrow> None | Some ren \<Rightarrow> obj_get ren a) of
        Some (c # cs) \<Rightarrow> c # cs
      | _ \<Rightarrow> a)"

text \<open>The \<open>switch\<close> on \<open>undefinedPolicy\<close> for an attribute whose raw value is
  \<open>undefined\<close>; the cases compare with \<open>===\<close>.\<close>

definition undefined_case :: "engine \<Rightarrow> string \<Rightarrow> string \<Rightarrow> (string \<times> jsval) list
    \<Rightarrow> error + (string \<times> jsval) list" where
  "undefined_case e a nm output =
     (let policy = undefinedPolicy (e_options e) in
      if policy = Some policy_SKIP then Inr output
      else if policy = Some policy_SET_NULL then Inr (obj_set nm VNull output)
      else if policy = Some policy_FAIL then Inl (UndefinedAttribute (name (e_model e)) a)
      else Inl InvalidPolicy)"

definition padWith0 :: "nat \<Rightarrow> string" where
  "padWith0 v = (let v = show_nat v in if length v = 1 then ''0'' @ v else v)"

fun simple_date :: "jsval \<Rightarrow> jsval" where
  "simple_date (VDate isoString y m d) =
     VStr (show_nat y @ ''-'' @ padWith0 (m + 1) @ ''-'' @ padWith0 d)"
| "simple_date v = v"

definition opt_truthy :: "jsval option \<Rightarrow> bool" where
  "opt_truthy v = (case v of None \<Rightarrow> False | Some x \<Rightarrow> truthy x)"

text \<open>
  The tests of \<open>_serializeValue\<close> on the descriptor \<open>attributes[attr]\<close>:
  \<open>a.type instanceof JSON\<close> or \<open>JSONB\<close>, and \<open>a.type instanceof DATEONLY\<close>,
  read off the key of the type.
\<close>

definition returnJSON :: "engine \<Rightarrow> string \<Rightarrow> bool" where
  "returnJSON e attr =
     (case obj_get (rawAttributes (e_model e)) attr of
        None \<Rightarrow> False
      | Some a \<Rightarrow> opt_truthy (copyJSONFields (e_options e)) \<and> typeKey a \<in> {''JSON'', ''JSONB''})"

definition is_simple_date :: "engine \<Rightarrow> string \<Rightarrow> jsval \<Rightarrow> bool" where
  "is_simple_date e attr v =
     (opt_truthy (simpleDates (e_options e)) \<and>
      (case obj_get (rawAttributes (e_model e)) attr of
         None \<Rightarrow> False
       | Some a \<Rightarrow> typeKey a = ''DATEONLY'') \<and> isDate v)"

text \<open>The last branch of \<open>_serializeValue\<close>: the configured encoder, which must be
  there to be called.\<close>

definition encode_value :: "engine \<Rightarrow> string \<Rightarrow> jsval \<Rightarrow> error + jsval" where
  "encode_value e attr v =
     (let v = (if is_simple_date e attr v then simple_date v else v) in
      case encoder (e_options e) of
        None \<Rightarrow> Inl TypeError
      | Some enc \<Rightarrow> enc v (case encoderOptions (e_options e) of None \<Rightarrow> VUndefined | Some eo \<Rightarrow> eo))"

definition attrPath_of :: "engine \<Rightarrow> string \<Rightarrow> string" where
  "attrPath_of e attr =
     (case e_attrPath e of Some (c # cs) \<Rightarrow> (c # cs) @ ''.'' | _ \<Rightarrow> []) @ attr"

definition assoc_scheme :: "engine \<Rightarrow> string \<Rightarrow> scheme_ref" where
  "assoc_scheme e attr =
     (case sch_assoc (e_scheme e) of
        None \<Rightarrow> RefNone
      | Some m \<Rightarrow> (case obj_get m attr of None \<Rightarrow> RefNone | Some r \<Rightarrow> r))"

text \<open>
  The first half of \<open>_serializeAssoc\<close>: the serializer for the path, from the cache
  or newly constructed and then stored, with the cache as it is afterwards.
\<close>

definition cache_lookup :: "cache \<Rightarrow> string \<Rightarrow> engine option" where
  "cache_lookup cache attrPath = (case cache of None \<Rightarrow> None | Some c \<Rightarrow> obj_get c attrPath)"

definition cache_store :: "cache \<Rightarrow> string \<Rightarrow> engine \<Rightarrow> cache" where
  "cache_store cache attrPath s = (case cache of None \<Rightarrow> None | Some c \<Rightarrow> Some (obj_set attrPath s c))"

definition assoc_serializer :: "run_context \<Rightarrow> engine \<Rightarrow> string \<Rightarrow> jsval \<Rightarrow> cache \<Rightarrow> cache \<times> (error + engine)" where
  "assoc_serializer ctx e attr inst cache =
     (let attrPath = attrPath_of e attr in
      case cache_lookup cache attrPath of
        Some s \<Rightarrow> (cache, Inr s)
      | None \<Rightarrow>
          (case Serializer (ctx_defaults ctx) (getModelFromInstance ctx inst)
                  (assoc_scheme e attr) (e_origOptions e) of
             Inl err \<Rightarrow> (cache, Inl err)
           | Inr s \<Rightarrow>
               (let s = s\<lparr> e_attrPath := Some attrPath \<rparr>
                in (cache_store cache attrPath s, Inr s))))"

text \<open>The two hooks, the model-wide one first.\<close>

definition run_hooks :: "engine \<Rightarrow> jsval \<Rightarrow> jsval \<Rightarrow> jsval" where
  "run_hooks e inst output =
     (let output =
            (case (case serializer (e_model e) of None \<Rightarrow> None | Some cfg \<Rightarrow> model_postSerialize cfg) of
               None \<Rightarrow> output
             | Some hook \<Rightarrow> hook (e_scheme e) output inst (e_schemeName e))
      in (case sch_postSerialize (e_scheme e) of
            None \<Rightarrow> output
          | Some hook \<Rightarrow> hook output inst))"

text \<open>
  The recursion of a run goes down the values of the instance: the raw value of an
  attribute, the elements of an array, the zero-argument call of a method. These facts
  give its termination.
\<close>

lemma size_obj_get:
  "obj_get kvs k = Some v \<Longrightarrow> size v < Suc (size_list (size_prod (\<lambda>_. 0) size) kvs)"
  by (induction kvs) (auto split: if_splits)

lemma size_raw_value:
  "\<not> is_undefined (raw_value e inst a) \<Longrightarrow> size (raw_value e inst a) < size inst"
proof (cases inst)
  case (VInstance m fs ps)
  show ?thesis
  proof (cases "is_field e a")
    case True
    with VInstance show ?thesis
      using size_obj_get [of fs a]
      by (auto simp: raw_value_def split: option.splits)
  next
    case False
    have "size (call_if_function x) \<le> size x" for x
      by (cases x) auto
    from this [of "inst_prop inst (attr_name e a)"] False VInstance show ?thesis
      using size_obj_get [of ps "attr_name e a"]
      by (auto simp: raw_value_def split: option.splits)
  qed
qed (auto simp: raw_value_def split: if_splits)

lemma size_elements:
  "is_array v \<Longrightarrow> size_list size (elements v) < size v"
  by (cases v) auto



text \<open>
  \<open>serialize\<close>, \<open>_serializeValue\<close> and \<open>_serializeAssoc\<close>, with the cache passed
  along and returned as the run leaves it (the cache is an object that the run updates in
  place, so it keeps its insertions when the run fails). \<open>cache\<close> is \<open>None\<close> when
  the caller gives no cache. \<open>serialize_loop\<close> is the loop over the compiled attribute
  list, \<open>serializeElems\<close> the loop over the elements of an array.
\<close>

function serialize :: "run_context \<Rightarrow> engine \<Rightarrow> jsval \<Rightarrow> cache \<Rightarrow> cache \<times> (error + jsval)"
  and serialize_loop :: "run_context \<Rightarrow> engine \<Rightarrow> jsval \<Rightarrow> string list \<Rightarrow> (string \<times> jsval) list \<Rightarrow> cache
        \<Rightarrow> cache \<times> (error + (string \<times> jsval) list)"
  and serializeValue :: "run_context \<Rightarrow> engine \<Rightarrow> string \<Rightarrow> jsval \<Rightarrow> cache \<Rightarrow> cache \<times> (error + jsval)"
  and serializeElems :: "run_context \<Rightarrow> engine \<Rightarrow> string \<Rightarrow> jsval list \<Rightarrow> jsval list \<Rightarrow> cache
        \<Rightarrow> cache \<times> (error + jsval list)"
  and serializeAssoc :: "run_context \<Rightarrow> engine \<Rightarrow> string \<Rightarrow> jsval \<Rightarrow> cache \<Rightarrow> cache \<times> (error + jsval)"
where
  "serialize ctx e inst cache =
     (if \<not> isSpecificModelInstance inst (e_model e)
      then (cache, Inl (NotAnInstance (name (e_model e))))
      else
        (case serialize_loop ctx e inst (e_attrList e) [] cache of
           (cache', Inl err) \<Rightarrow> (cache', Inl err)
         | (cache', Inr output) \<Rightarrow> (cache', Inr (run_hooks e inst (VObject output)))))"
| "serialize_loop ctx e inst [] output cache = (cache, Inr output)"
| "serialize_loop ctx e inst (a # rest) output cache =
     (let v = raw_value e inst a in
      if \<not> is_undefined v
      then
        (case serializeValue ctx e (attr_name e a) v cache of
           (cache', Inl err) \<Rightarrow> (cache', Inl err)
         | (cache', Inr r) \<Rightarrow>
             serialize_loop ctx e inst rest (obj_set (output_name e (attr_name e a)) r output) cache')
      else
        (case undefined_case e (attr_name e a) (output_name e (attr_name e a)) output of
           Inl err \<Rightarrow> (cache, Inl err)
         | Inr output' \<Rightarrow> serialize_loop ctx e inst rest output' cache))"
| "serializeValue ctx e attr v cache =
     (if returnJSON e attr then (cache, Inr v)
      else if is_array v then
        (case serializeElems ctx e attr (elements v) [] cache of
           (cache', Inl err) \<Rightarrow> (cache', Inl err)
         | (cache', Inr r) \<Rightarrow> (cache', Inr (VArray r)))
      else if isModelInstance v then serializeAssoc ctx e attr v cache
      else (cache, encode_value e attr v))"
| "serializeElems ctx e attr [] result cache = (cache, Inr result)"
| "serializeElems ctx e attr (x # xs) result cache =
     (case serializeValue ctx e attr x cache of
        (cache', Inl err) \<Rightarrow> (cache', Inl err)
      | (cache', Inr r) \<Rightarrow> serializeElems ctx e attr xs (result @ [r]) cache')"
| "serializeAssoc ctx e attr inst cache =
     (case assoc_serializer ctx e attr inst cache of
        (cache', Inl err) \<Rightarrow> (cache', Inl err)
      | (cache', Inr s) \<Rightarrow> serialize ctx s inst cache')"
  by pat_completeness auto
termination
  apply (relation "inv_image (less_than <*lex*> less_than <*lex*> less_than)
      (\<lambda>x. case x of
          Inl (Inl (ctx, e, inst, cache)) \<Rightarrow> (size inst, 1::nat, 0::nat)
        | Inl (Inr (ctx, e, inst, attrs, out, cache)) \<Rightarrow> (size inst, 0, length attrs)
        | Inr (Inl (ctx, e, attr, v, cache)) \<Rightarrow> (size v, 3, 0)
        | Inr (Inr (Inl (ctx, e, attr, xs, res, cache))) \<Rightarrow> (size_list size xs, 4, 0)
        | Inr (Inr (Inr (ctx, e, attr, inst, cache))) \<Rightarrow> (size inst, 2, 0))")
  apply (auto simp: size_raw_value size_elements)
  done




section \<open>deepMerge on objects with identities\<close>















section \<open>Predicates of the properties\<close>

text \<open>
  The cache \<open>c'\<close> extends the cache \<open>c\<close>: no cache stays no cache; otherwise
  \<open>c'\<close> is \<open>c\<close> followed by new entries, each under a key that \<open>c\<close> has no
  entry for. So every entry of \<open>c\<close> is in \<open>c'\<close>, unchanged and in its place.
\<close>

definition cache_extends :: "cache \<Rightarrow> cache \<Rightarrow> bool" where
  "cache_extends c c' =
     (case c of
        None \<Rightarrow> c' = None
      | Some kvs \<Rightarrow>
          (case c' of
             None \<Rightarrow> False
           | Some kvs' \<Rightarrow>
               take (length kvs) kvs' = kvs \<and>
               (\<forall>(k, s) \<in> set (drop (length kvs) kvs'). obj_get kvs k = None)))"

text \<open>
  The scheme that the scheme map of a model holds under a name, as a key of its own
  (\<open>None\<close> when the map has no such key, or the model has no map), and whether the
  model has a scheme map at all.
\<close>

definition own_scheme :: "model \<Rightarrow> string \<Rightarrow> scheme option" where
  "own_scheme m n =
     (case serializer m of
        None \<Rightarrow> None
      | Some cfg \<Rightarrow> (case schemes cfg of None \<Rightarrow> None | Some ss \<Rightarrow> obj_get ss n))"

definition has_scheme_map :: "model \<Rightarrow> bool" where
  "has_scheme_map m =
     (case serializer m of None \<Rightarrow> False | Some cfg \<Rightarrow> schemes cfg \<noteq> None)"

text \<open>
  The selectors of a scheme are known when each entry of its include and exclude lists
  that starts with \<open>@\<close> names one of the eight groups. \<open>entry_names\<close> are the names
  among the entries of an expanded list.
\<close>

definition group_names :: "string list" where
  "group_names = [''all'', ''virtual'', ''pk'', ''fk'', ''assoc'', ''blob'', ''doc'', ''auto'']"

definition known_selector :: "string \<Rightarrow> bool" where
  "known_selector a = (take 1 a = ''@'' \<longrightarrow> drop 1 a \<in> set group_names)"

definition known_selectors :: "scheme \<Rightarrow> bool" where
  "known_selectors sch =
     (list_all known_selector (case sch_include sch of None \<Rightarrow> [] | Some l \<Rightarrow> l)
      \<and> list_all known_selector (case sch_exclude sch of None \<Rightarrow> [] | Some l \<Rightarrow> l))"

fun entry_names :: "entry list \<Rightarrow> string list" where
  "entry_names [] = []"
| "entry_names (EName n # es) = n # entry_names es"
| "entry_names (e # es) = entry_names es"


text \<open>
  Reading the option objects along a path of keys. \<open>value_at v p\<close> is the value
  under the path \<open>p\<close> in \<open>v\<close> (\<open>undefined\<close> where a key is missing or the value
  is not a plain object). A value is a leaf when it is set and is not a plain object that
  a merge would descend into. A source leaves the path \<open>p\<close> open when it sets
  nothing on it: it is \<open>undefined\<close> at \<open>p\<close> or at a prefix of \<open>p\<close>, with plain
  objects above. \<open>source_value key src\<close> is the value of the option \<open>key\<close> in a
  source, \<open>undefined\<close> when the source itself is absent; \<open>first_set\<close> is the
  first value that is there, in the order of the list. \<open>option_sources\<close> are the
  sources of the options in the order the constructor passes them.
\<close>

fun is_leaf :: "jsval \<Rightarrow> bool" where
  "is_leaf VUndefined = False"
| "is_leaf (VObject kvs) = False"
| "is_leaf v = True"

fun member :: "jsval \<Rightarrow> string \<Rightarrow> jsval" where
  "member (VObject kvs) k = (case obj_get kvs k of None \<Rightarrow> VUndefined | Some v \<Rightarrow> v)"
| "member v k = VUndefined"

fun value_at :: "jsval \<Rightarrow> string list \<Rightarrow> jsval" where
  "value_at v [] = v"
| "value_at v (k # ks) = value_at (member v k) ks"

fun is_object :: "jsval \<Rightarrow> bool" where
  "is_object (VObject kvs) = True"
| "is_object v = False"

fun open_path :: "jsval \<Rightarrow> string list \<Rightarrow> bool" where
  "open_path v [] = is_undefined v"
| "open_path v (k # ks) = (is_undefined v \<or> is_object v \<and> open_path (member v k) ks)"

definition option_value :: "jsval option \<Rightarrow> jsval" where
  "option_value v = (case v of None \<Rightarrow> VUndefined | Some x \<Rightarrow> x)"

definition source_value :: "(options \<Rightarrow> jsval option) \<Rightarrow> options option \<Rightarrow> jsval" where
  "source_value key src = (case src of None \<Rightarrow> VUndefined | Some opts \<Rightarrow> option_value (key opts))"

definition source_fun :: "(options \<Rightarrow> 'f option) \<Rightarrow> options option \<Rightarrow> 'f option" where
  "source_fun key src = (case src of None \<Rightarrow> None | Some opts \<Rightarrow> key opts)"

fun first_set :: "'a option list \<Rightarrow> 'a option" where
  "first_set [] = None"
| "first_set (None # rest) = first_set rest"
| "first_set (Some x # rest) = Some x"

definition value_keys :: "(options \<Rightarrow> jsval option) list" where
  "value_keys = [undefinedPolicy, copyJSONFields, simpleDates, encoderOptions]"

definition option_sources :: "options option \<Rightarrow> scheme \<Rightarrow> model \<Rightarrow> options \<Rightarrow> options option list" where
  "option_sources opts sch m defaults =
     [opts, sch_options sch,
      (case serializer m of None \<Rightarrow> None | Some cfg \<Rightarrow> model_options cfg),
      Some defaults]"



text \<open>
  A run is coherent for a table \<open>G\<close> of serializers by association path when, wherever
  it reaches a model instance under an attribute, the serializer that \<open>_serializeAssoc\<close>
  constructs for it without a cache is the serializer \<open>G\<close> has for the path, and the
  run of that serializer on the instance is coherent again; or the construction fails
  and \<open>G\<close> has no serializer for the path. So all instances that the run reaches under
  one path get the same serializer (they are of one model, with one scheme).
\<close>

inductive coherent_inst :: "(string \<Rightarrow> engine option) \<Rightarrow> run_context \<Rightarrow> engine \<Rightarrow> jsval \<Rightarrow> bool"
  and coherent_value :: "(string \<Rightarrow> engine option) \<Rightarrow> run_context \<Rightarrow> engine \<Rightarrow> string \<Rightarrow> jsval \<Rightarrow> bool"
  for G :: "string \<Rightarrow> engine option" and ctx :: run_context
where
  coherent_attributes:
    "(\<And>a. a \<in> set (e_attrList e) \<Longrightarrow> coherent_value G ctx e (attr_name e a) (raw_value e inst a))
     \<Longrightarrow> coherent_inst G ctx e inst"
| coherent_copied:
    "returnJSON e attr \<Longrightarrow> coherent_value G ctx e attr v"
| coherent_elements:
    "is_array v \<Longrightarrow> (\<And>x. x \<in> set (elements v) \<Longrightarrow> coherent_value G ctx e attr x)
     \<Longrightarrow> coherent_value G ctx e attr v"
| coherent_plain:
    "\<not> is_array v \<Longrightarrow> \<not> isModelInstance v \<Longrightarrow> coherent_value G ctx e attr v"
| coherent_failing:
    "isModelInstance v \<Longrightarrow> assoc_serializer ctx e attr v None = (None, Inl err)
     \<Longrightarrow> G (attrPath_of e attr) = None \<Longrightarrow> coherent_value G ctx e attr v"
| coherent_child:
    "isModelInstance v \<Longrightarrow> assoc_serializer ctx e attr v None = (None, Inr s)
     \<Longrightarrow> G (attrPath_of e attr) = Some s \<Longrightarrow> coherent_inst G ctx s v
     \<Longrightarrow> coherent_value G ctx e attr v"










section \<open>Example data\<close>

text \<open>
  A blog post model with a primary key, a foreign key and an association, as in the
  scenario of the specification, and a user model that declares a scheme of its own.
\<close>

definition ex_attribute :: "string \<Rightarrow> string \<Rightarrow> bool \<Rightarrow> bool \<Rightarrow> attribute" where
  "ex_attribute n t p f =
     \<lparr> fieldName = n, typeKey = t, primaryKey = p, references = f, autoGenerated = False \<rparr>"

definition Post :: model where
  "Post = \<lparr> name = ''Post'', is_model = True,
     rawAttributes =
       [(''id'', ex_attribute ''id'' ''INTEGER'' True False),
        (''authorId'', ex_attribute ''authorId'' ''INTEGER'' False True),
        (''title'', ex_attribute ''title'' ''STRING'' False False),
        (''body'', ex_attribute ''body'' ''TEXT'' False False)],
     associations = [(''author'', ''author'')],
     serializer = None \<rparr>"

definition ex_brief :: scheme where
  "ex_brief = Scheme (Some [''name'']) None None None None None"

definition user_config :: serializer_config where
  "user_config = \<lparr> schemes = Some [(''brief'', ex_brief)],
     defaultScheme = None, model_options = None, model_postSerialize = None \<rparr>"

definition User :: model where
  "User = \<lparr> name = ''User'', is_model = True,
     rawAttributes =
       [(''id'', ex_attribute ''id'' ''INTEGER'' True False),
        (''name'', ex_attribute ''name'' ''STRING'' False False),
        (''bio'', ex_attribute ''bio'' ''TEXT'' False False)],
     associations = [],
     serializer = Some user_config \<rparr>"

definition Team :: model where
  "Team = \<lparr> name = ''Team'', is_model = True,
     rawAttributes =
       [(''id'', ex_attribute ''id'' ''INTEGER'' True False),
        (''name'', ex_attribute ''name'' ''STRING'' False False)],
     associations = [],
     serializer = Some user_config \<rparr>"

definition ex_ctx :: run_context where
  "ex_ctx = \<lparr> ctx_defaults = defaultOptions,
     ctx_models = (\<lambda>n. if n = ''User'' then User else if n = ''Team'' then Team else Post) \<rparr>"

text \<open>The default options with the undefined-value policy set to \<open>p\<close>, and a run
  context that has them as the process-wide defaults.\<close>

definition defaults_with :: "jsval option \<Rightarrow> options" where
  "defaults_with p = defaultOptions\<lparr> undefinedPolicy := p \<rparr>"

definition ex_ctx_with :: "jsval option \<Rightarrow> run_context" where
  "ex_ctx_with p = \<lparr> ctx_defaults = defaults_with p,
     ctx_models = (\<lambda>n. if n = ''User'' then User else if n = ''Team'' then Team else Post) \<rparr>"

text \<open>The serializer of \<open>new Serializer(Post)\<close> under the default options.\<close>

definition post_attr :: attr_groups where
  "post_attr = \<lparr> all = [''id'', ''authorId'', ''title'', ''body''], virtual = [], pk = [''id''],
     fk = [''authorId''], assoc_group = [''author''], blob = [], doc = [], auto = [] \<rparr>"

definition post_engine :: engine where
  "post_engine = \<lparr> e_origOptions = None, e_options = defaultOptions, e_model = Post,
     e_scheme = empty_scheme, e_schemeName = None, e_attr = post_attr,
     e_attrList = [''id'', ''authorId'', ''title'', ''body''], e_attrPath = None \<rparr>"


text \<open>Schemes: everything; everything but the keys, with the association and a method;
  a name and its dotted form, the dotted form excluded.\<close>

definition ex_all_scheme :: scheme where
  "ex_all_scheme = Scheme (Some [''@all'']) (Some []) None None None None"

definition ex_selection :: scheme where
  "ex_selection =
     Scheme (Some [''@all'', ''author'', ''getUrl'']) (Some [''@pk'', ''@fk'']) None None None None"

definition ex_dotted :: scheme where
  "ex_dotted = Scheme (Some [''foo'', ''.foo'']) (Some [''.foo'']) None None None None"

text \<open>Selectors of no group: an inherited key, and a key that reads \<open>undefined\<close>.\<close>

definition ex_inherited_selector :: scheme where
  "ex_inherited_selector = Scheme (Some [''@toString'', ''@__proto__'']) None None None None None"

definition ex_unknown_selector :: scheme where
  "ex_unknown_selector = Scheme (Some [''@nothing'', ''foo'']) None None None None None"

definition ex_unknown_excluded :: scheme where
  "ex_unknown_excluded = Scheme (Some [''@nothing'', ''foo'']) (Some [''@nothing'']) None None None None"

text \<open>Options whose attribute filter rejects the foreign keys.\<close>

definition ex_no_fk_options :: options where
  "ex_no_fk_options = no_options\<lparr> attrFilter := Some (\<lambda>a m. \<not> references a) \<rparr>"


text \<open>
  A post with its author loaded, the scheme that serializes the author by the scheme
  \<open>brief\<close> of the user model, and the two serializers of such a run.
\<close>

definition ex_author_scheme :: scheme where
  "ex_author_scheme =
     Scheme (Some [''title'', ''author'']) None (Some [(''author'', RefName ''brief'')]) None None None"

definition user_attr :: attr_groups where
  "user_attr = \<lparr> all = [''id'', ''name'', ''bio''], virtual = [], pk = [''id''],
     fk = [], assoc_group = [], blob = [], doc = [], auto = [] \<rparr>"

definition author_engine :: "options \<Rightarrow> engine" where
  "author_engine opts = \<lparr> e_origOptions = None, e_options = opts, e_model = Post,
     e_scheme = ex_author_scheme, e_schemeName = None, e_attr = post_attr,
     e_attrList = [''title'', ''author''], e_attrPath = None \<rparr>"

definition brief_engine :: "options \<Rightarrow> engine" where
  "brief_engine opts = \<lparr> e_origOptions = None, e_options = opts, e_model = User,
     e_scheme = ex_brief, e_schemeName = Some ''brief'', e_attr = user_attr,
     e_attrList = [''name''], e_attrPath = Some ''author'' \<rparr>"

definition ann :: jsval where
  "ann = VInstance ''User'' [(''id'', VNum 2), (''name'', VStr ''Ann'')] []"

definition post_by_ann :: jsval where
  "post_by_ann = VInstance ''Post''
     [(''id'', VNum 1), (''authorId'', VNum 2), (''title'', VStr ''T''), (''body'', VStr ''B'')]
     [(''author'', ann)]"



text \<open>Options given to the constructor and options of a scheme, both with encoder
  options of their own.\<close>

definition ex_ctor_options :: options where
  "ex_ctor_options = no_options\<lparr> encoderOptions := Some (VObject [(''indent'', VNum 2)]) \<rparr>"

definition ex_scheme_options :: options where
  "ex_scheme_options = no_options\<lparr>
     undefinedPolicy := Some policy_FAIL,
     encoderOptions := Some (VObject [(''blobEncoding'', VStr ''hex''), (''indent'', VNum 4)]) \<rparr>"

definition ex_options_scheme :: scheme where
  "ex_options_scheme = Scheme None None None None (Some ex_scheme_options) None"









section \<open>Basic facts\<close>

declare serialize.simps [simp del] serializeValue.simps [simp del] serializeAssoc.simps [simp del]


lemma filter_neq_absent: "a \<notin> set xs \<Longrightarrow> filter (\<lambda>y. y \<noteq> a) xs = xs"
  by (induction xs) auto

lemma uniq_distinct: "distinct xs \<Longrightarrow> uniq xs = xs"
  by (induction xs) (auto simp: filter_neq_absent)

lemma empty_scheme_sel:
  "sch_include empty_scheme = None" "sch_exclude empty_scheme = None"
  "sch_assoc empty_scheme = None" "sch_as empty_scheme = None"
  "sch_options empty_scheme = None" "sch_postSerialize empty_scheme = None"
  by (simp_all add: empty_scheme_def)

lemma Post_simps: "is_model Post" "serializer Post = None" "name Post = ''Post''"
  by (simp_all add: Post_def)

lemma post_attr_sel:
  "all post_attr = [''id'', ''authorId'', ''title'', ''body'']"
  "assoc_group post_attr = [''author'']"
  by (simp_all add: post_attr_def)

lemma empty_attr_sel: "all empty_attr = []" "assoc_group empty_attr = []"
  by (simp_all add: empty_attr_def)

lemma defaultsDeep_defaults: "defaultsDeep [None, None, None, Some defaultOptions] = defaultOptions"
  by (simp add: defaultsDeep_def defaults_options_def no_options_def defaultOptions_def
      defaults_fun_def defaults_field_def)

lemma collect_Post: "collectAttrs defaultOptions Post = post_attr"
  by (simp add: collectAttrs_def collect_one_def attr_rejected_def defaultOptions_def
      Post_def ex_attribute_def empty_attr_def post_attr_def DOC_DB_TYPES_def)

lemma compile_Post:
  "compileAttributesList post_attr empty_scheme = Inr [''id'', ''authorId'', ''title'', ''body'']"
  by (simp add: compileAttributesList_def expanded_include_def expanded_exclude_def
      empty_scheme_def post_attr_def mark_adhoc_def)

lemma post_engine_constructed: "Serializer defaultOptions Post RefNone None = Inr post_engine"
  by (simp add: Serializer_def Let_def resolve_scheme_def Post_simps empty_scheme_sel
      defaultsDeep_defaults collect_Post compile_Post)
     (simp add: post_engine_def)

text \<open>The example run: a post with its author.\<close>

lemma defaults_with_sel:
  "encoder (defaults_with p) = Some encodeToJSON"
  "undefinedPolicy (defaults_with p) = p"
  "copyJSONFields (defaults_with p) = Some (VBool True)"
  "simpleDates (defaults_with p) = Some (VBool True)"
  "encoderOptions (defaults_with p) = Some (VObject [(''blobEncoding'', VStr ''base64'')])"
  "attrFilter (defaults_with p) = None"
  by (simp_all add: defaults_with_def defaultOptions_def)


lemma defaults_with_SKIP: "defaults_with (Some policy_SKIP) = defaultOptions"
  by (simp add: defaults_with_def defaultOptions_def)

lemma defaultsDeep_only_defaults: "defaultsDeep [None, None, None, Some d] = d"
  by (cases d)
     (simp add: defaultsDeep_def defaults_options_def no_options_def defaults_fun_def
       defaults_field_def)

lemma User_simps: "is_model User" "name User = ''User''"
  "as_scheme (getSchemeFromModel User ''brief'') = Some ex_brief"
  "serializer User = Some user_config" "model_options user_config = None"
  "model_postSerialize user_config = None"
  by (simp_all add: User_def getSchemeFromModel_def get_property_def as_scheme_def user_config_def)

lemma collect_User: "attrFilter opts = None \<Longrightarrow> collectAttrs opts User = user_attr"
  by (simp add: collectAttrs_def collect_one_def attr_rejected_def
      User_def ex_attribute_def empty_attr_def user_attr_def DOC_DB_TYPES_def)

lemma compile_brief: "compileAttributesList user_attr ex_brief = Inr [''name'']"
  by (simp add: compileAttributesList_def expanded_include_def expanded_exclude_def
      ex_brief_def expandAttributes_def mark_adhoc_def user_attr_def)

lemma ex_brief_sel: "sch_options ex_brief = None" "sch_as ex_brief = None"
  "sch_assoc ex_brief = None" "sch_postSerialize ex_brief = None"
  by (simp_all add: ex_brief_def)

lemma brief_constructed:
  "Serializer (defaults_with p) User (RefName ''brief'') None
     = Inr ((brief_engine (defaults_with p))\<lparr>e_attrPath := None\<rparr>)"
  by (simp add: Serializer_def Let_def resolve_scheme_def User_simps ex_brief_sel
      defaultsDeep_only_defaults collect_User defaults_with_sel compile_brief)
     (simp add: brief_engine_def)

lemma brief_engine_sel:
  "e_model (brief_engine d) = User" "e_attrList (brief_engine d) = [''name'']"
  "e_options (brief_engine d) = d" "e_attr (brief_engine d) = user_attr"
  "e_scheme (brief_engine d) = ex_brief" "e_schemeName (brief_engine d) = Some ''brief''"
  "e_attrPath (brief_engine d) = Some ''author''" "e_origOptions (brief_engine d) = None"
  by (simp_all add: brief_engine_def)

lemma author_engine_sel:
  "e_model (author_engine d) = Post" "e_attrList (author_engine d) = [''title'', ''author'']"
  "e_options (author_engine d) = d" "e_attr (author_engine d) = post_attr"
  "e_scheme (author_engine d) = ex_author_scheme" "e_schemeName (author_engine d) = None"
  "e_attrPath (author_engine d) = None" "e_origOptions (author_engine d) = None"
  by (simp_all add: author_engine_def)

lemma user_attr_sel: "all user_attr = [''id'', ''name'', ''bio'']" "assoc_group user_attr = []"
  by (simp_all add: user_attr_def)

lemma name_is_plain:
  "returnJSON (brief_engine d) ''name'' = False"
  "is_simple_date (brief_engine d) ''name'' v = False"
  "attr_name (brief_engine d) ''name'' = ''name''"
  "output_name (brief_engine d) ''name'' = ''name''"
  by (simp_all add: returnJSON_def is_simple_date_def attr_name_def is_field_def output_name_def
      brief_engine_sel user_attr_sel ex_brief_sel User_def ex_attribute_def)

lemma brief_run_ann:
  "serialize (ex_ctx_with p) (brief_engine (defaults_with q)) ann cache
     = (cache, Inr (VObject [(''name'', VStr ''Ann'')]))"
  by (simp add: serialize.simps serializeValue.simps ann_def brief_engine_sel User_simps
      raw_value_def is_field_def user_attr_sel name_is_plain encode_value_def defaults_with_sel
      run_hooks_def ex_brief_sel)



lemma ex_author_scheme_sel:
  "sch_assoc ex_author_scheme = Some [(''author'', RefName ''brief'')]"
  "sch_as ex_author_scheme = None" "sch_postSerialize ex_author_scheme = None"
  "sch_options ex_author_scheme = None"
  by (simp_all add: ex_author_scheme_def)

lemma author_names:
  "attr_name (author_engine d) ''title'' = ''title''"
  "attr_name (author_engine d) ''author'' = ''author''"
  "output_name (author_engine d) n = n"
  "returnJSON (author_engine d) ''author'' = False"
  "returnJSON (author_engine d) ''title'' = False"
  "is_simple_date (author_engine d) ''title'' v = False"
  "attrPath_of (author_engine d) ''author'' = ''author''"
  "assoc_scheme (author_engine d) ''author'' = RefName ''brief''"
  by (simp_all add: attr_name_def is_field_def output_name_def returnJSON_def is_simple_date_def
      attrPath_of_def assoc_scheme_def author_engine_sel post_attr_sel ex_author_scheme_sel
      Post_def ex_attribute_def)

lemma author_child:
  "assoc_serializer (ex_ctx_with p) (author_engine d) ''author'' (VInstance ''User'' fs ps) cache
     = (case cache_lookup cache ''author'' of
          Some s \<Rightarrow> (cache, Inr s)
        | None \<Rightarrow> (cache_store cache ''author'' (brief_engine (defaults_with p)),
                   Inr (brief_engine (defaults_with p))))"
  by (simp add: assoc_serializer_def Let_def author_names author_engine_sel
      getModelFromInstance_def ex_ctx_with_def brief_constructed brief_engine_def
      split: option.splits)

lemma author_run:
  "serialize (ex_ctx_with p) (author_engine (defaults_with q))
       (VInstance ''Post'' [(''id'', i), (''authorId'', j), (''title'', VStr t), (''body'', b)]
          [(''author'', VInstance mn fs ps)]) cache
     = (case assoc_serializer (ex_ctx_with p) (author_engine (defaults_with q)) ''author''
               (VInstance mn fs ps) cache of
          (c1, Inl err) \<Rightarrow> (c1, Inl err)
        | (c1, Inr s) \<Rightarrow>
            (case serialize (ex_ctx_with p) s (VInstance mn fs ps) c1 of
               (c2, Inl err) \<Rightarrow> (c2, Inl err)
             | (c2, Inr r) \<Rightarrow> (c2, Inr (VObject [(''title'', VStr t), (''author'', r)]))))"
  by (simp add: serialize.simps [of _ "author_engine _"] serializeValue.simps serializeAssoc.simps
      author_engine_sel Post_simps raw_value_def is_field_def post_attr_sel author_names
      encode_value_def defaults_with_sel run_hooks_def ex_author_scheme_sel
      split: prod.splits sum.splits)

lemma ann_run:
  "serialize (ex_ctx_with p) (author_engine (defaults_with q)) post_by_ann (Some [])
     = (Some [(''author'', brief_engine (defaults_with p))],
        Inr (VObject [(''title'', VStr ''T''), (''author'', VObject [(''name'', VStr ''Ann'')])]))"
  unfolding post_by_ann_def ann_def author_run author_child
  by (simp add: cache_lookup_def cache_store_def brief_run_ann [unfolded ann_def])











section \<open>Properties of the value encoder\<close>

text \<open>
  Claim C7. A value that is not a string, number, boolean or \<open>null\<close>, whose class is
  not one of the array types, that is not a Date, not a Buffer and not of \<open>typeof\<close>
  \<open>object\<close> (a function, a symbol, \<open>undefined\<close>) makes \<open>encodeToJSON\<close> fail
  with the error that names the \<open>typeof\<close> of the value; no result is returned.
\<close>

theorem encodeToJSON_unsupported:
  assumes "typeof v \<notin> set PLAIN_TYPES" and "v \<noteq> VNull"
    and "className v \<notin> Some ` set ARRAY_TYPES"
    and "\<not> isDate v" and "\<not> isBuffer v" and "typeof v \<noteq> ''object''"
  shows "encodeToJSON v options = Inl (EncodeError (typeof v))"
  using assms by (cases v) (simp_all add: PLAIN_TYPES_def)

theorem encodeToJSON_unsupported_witness:
  "typeof (VFunction (VNum 1)) \<notin> set PLAIN_TYPES \<and> VFunction (VNum 1) \<noteq> VNull
   \<and> className (VFunction (VNum 1)) \<notin> Some ` set ARRAY_TYPES
   \<and> \<not> isDate (VFunction (VNum 1)) \<and> \<not> isBuffer (VFunction (VNum 1))
   \<and> typeof (VFunction (VNum 1)) \<noteq> ''object''
   \<and> encodeToJSON (VFunction (VNum 1)) VUndefined = Inl (EncodeError ''function'')"
  using encodeToJSON_unsupported [of "VFunction (VNum 1)" VUndefined]
  by (simp add: PLAIN_TYPES_def ARRAY_TYPES_def className_def)

section \<open>Properties of the scheme resolution\<close>

lemma compile_loop_fields:
  "set xs \<subseteq> set (all attr) \<Longrightarrow> compile_loop attr (map EName xs) [] acc = Inr (acc @ xs)"
  by (induction xs arbitrary: acc) (auto simp: mark_adhoc_def)

lemma compile_no_lists:
  "sch_include sch = None \<Longrightarrow> sch_exclude sch = None
   \<Longrightarrow> compileAttributesList attr sch = Inr (all attr)"
  using compile_loop_fields [of "all attr" attr "[]"]
  by (simp add: compileAttributesList_def expanded_include_def expanded_exclude_def)

lemma prototype_read_cases:
  "prototype_read ''__proto__'' = Inherited ''__proto__''"
  "k \<noteq> ''__proto__'' \<Longrightarrow> as_scheme (prototype_read k) = None"
  by (simp_all add: prototype_read_def object_prototype_keys_def as_scheme_def)

lemma as_scheme_simps:
  "as_scheme Absent = None" "as_scheme (Own s) = Some s"
  "as_scheme (Inherited ''__proto__'') = Some empty_scheme"
  by (simp_all add: as_scheme_def)

text \<open>
  Claim C1, as the source has it. The claim says that a scheme name the model has no
  scheme for resolves to the empty scheme. The constructor does not do that:
  \<open>_getSchemeFromModel\<close> returns \<open>null\<close>, and the validation that follows rejects
  \<open>null\<close>. Below: the failure on a model without a serializer configuration, and the
  statement that holds: for a valid model, a name that is no key of the scheme map (also
  when the model declares no configuration or no map) fails with the invalid-scheme
  error, whether the read finds nothing or an inherited function. The name
  \<open>__proto__\<close> on a model with a scheme map is the exception: the read finds the
  inherited prototype object, which passes the validation, and the serializer is the one
  of the empty scheme under that name.
\<close>

theorem missing_scheme_counterexample:
  "is_model Post \<and> serializer Post = None \<and> own_scheme Post ''missing'' = None
   \<and> getSchemeFromModel Post ''missing'' = Absent
   \<and> Serializer defaultOptions Post (RefName ''missing'') None = Inl InvalidScheme"
  by (simp add: Serializer_def resolve_scheme_def getSchemeFromModel_def own_scheme_def
      as_scheme_def Post_simps)

theorem missing_scheme_rejected:
  assumes "is_model m" and "own_scheme m n = None"
  shows "(\<not> has_scheme_map m \<or> n \<noteq> ''__proto__''
            \<longrightarrow> Serializer defaults m (RefName n) opts = Inl InvalidScheme)
     \<and> (has_scheme_map m \<and> n = ''__proto__''
            \<longrightarrow> (\<exists>e. Serializer defaults m (RefObject empty_scheme) opts = Inr e
                    \<and> Serializer defaults m (RefName n) opts = Inr (e\<lparr>e_schemeName := Some n\<rparr>)))"
proof (intro conjI impI)
  assume "\<not> has_scheme_map m \<or> n \<noteq> ''__proto__''"
  with assms(2) have "as_scheme (getSchemeFromModel m n) = None"
    by (auto simp: getSchemeFromModel_def own_scheme_def has_scheme_map_def get_property_def
        prototype_read_cases as_scheme_simps split: option.splits)
  with assms(1) show "Serializer defaults m (RefName n) opts = Inl InvalidScheme"
    by (simp add: Serializer_def resolve_scheme_def)
next
  assume a: "has_scheme_map m \<and> n = ''__proto__''"
  with assms(2) have "as_scheme (getSchemeFromModel m n) = Some empty_scheme"
    by (auto simp: getSchemeFromModel_def own_scheme_def has_scheme_map_def get_property_def
        prototype_read_cases as_scheme_simps split: option.splits)
  with assms(1) show "\<exists>e. Serializer defaults m (RefObject empty_scheme) opts = Inr e
      \<and> Serializer defaults m (RefName n) opts = Inr (e\<lparr>e_schemeName := Some n\<rparr>)"
    by (simp add: Serializer_def resolve_scheme_def Let_def compile_no_lists empty_scheme_sel)
qed

theorem missing_scheme_rejected_witness:
  "is_model User \<and> has_scheme_map User
   \<and> own_scheme User ''full'' = None
   \<and> Serializer defaultOptions User (RefName ''full'') None = Inl InvalidScheme
   \<and> own_scheme User ''toString'' = None
   \<and> Serializer defaultOptions User (RefName ''toString'') None = Inl InvalidScheme
   \<and> own_scheme User ''__proto__'' = None
   \<and> (\<exists>e. Serializer defaultOptions User (RefObject empty_scheme) None = Inr e
          \<and> Serializer defaultOptions User (RefName ''__proto__'') None
              = Inr (e\<lparr>e_schemeName := Some ''__proto__''\<rparr>))"
proof -
  have m: "is_model User" and h: "has_scheme_map User"
    and o: "own_scheme User ''full'' = None" "own_scheme User ''toString'' = None"
      "own_scheme User ''__proto__'' = None"
    by (simp_all add: User_def user_config_def own_scheme_def has_scheme_map_def)
  from missing_scheme_rejected [OF m o(1), of defaultOptions None]
  have 1: "Serializer defaultOptions User (RefName ''full'') None = Inl InvalidScheme" by simp
  from missing_scheme_rejected [OF m o(2), of defaultOptions None]
  have 2: "Serializer defaultOptions User (RefName ''toString'') None = Inl InvalidScheme" by simp
  from missing_scheme_rejected [OF m o(3), of defaultOptions None] h
  have 3: "\<exists>e. Serializer defaultOptions User (RefObject empty_scheme) None = Inr e
          \<and> Serializer defaultOptions User (RefName ''__proto__'') None
              = Inr (e\<lparr>e_schemeName := Some ''__proto__''\<rparr>)" by simp
  from m h o 1 2 3 show ?thesis by simp
qed

section \<open>Properties of the attribute list\<close>

lemma all_foldl_collect:
  "all (foldl (collect_one opts m) acc xs)
     = all acc @ map fieldName (filter (\<lambda>a. \<not> attr_rejected opts m a) xs)"
  by (induction xs arbitrary: acc) (auto simp: collect_one_def Let_def)

lemma all_collectAttrs:
  "all (collectAttrs opts m)
     = map fieldName (filter (\<lambda>a. \<not> attr_rejected opts m a) (map snd (rawAttributes m)))"
  by (simp add: collectAttrs_def Let_def all_foldl_collect empty_attr_def)

lemma expand_all: "expandAttributes attr [''@all''] = uniq (map EName (all attr))"
  by (simp add: expandAttributes_def attr_lookup_def)

lemma expand_nil: "expandAttributes attr [] = []"
  by (simp add: expandAttributes_def)

lemma collect_Post_no_fk: "collectAttrs ex_no_fk_options Post
    = \<lparr> all = [''id'', ''title'', ''body''], virtual = [], pk = [''id''],
        fk = [], assoc_group = [''author''], blob = [], doc = [], auto = [] \<rparr>"
  by (simp add: collectAttrs_def collect_one_def attr_rejected_def ex_no_fk_options_def
      no_options_def Post_def ex_attribute_def empty_attr_def DOC_DB_TYPES_def)

text \<open>
  Claim C2, as the source has it. The claim says that \<open>@all\<close> (or no include list) with
  nothing excluded gives every data field of the model. The classification drops the
  attributes that the \<open>attrFilter\<close> option rejects before \<open>@all\<close> is expanded, so the
  compiled list of the example below, whose filter rejects the foreign keys, lacks the
  field \<open>authorId\<close>. What holds: the compiled list is the list of the fields that the
  filter does not reject (all fields when there is no filter), each once, in the declared
  order, the field names of a model being distinct.
\<close>

theorem all_fields_counterexample:
  "map (fieldName \<circ> snd) (rawAttributes Post) = [''id'', ''authorId'', ''title'', ''body'']
   \<and> compileAttributesList (collectAttrs ex_no_fk_options Post) ex_all_scheme
       = Inr [''id'', ''title'', ''body'']"
proof -
  have "map (fieldName \<circ> snd) (rawAttributes Post) = [''id'', ''authorId'', ''title'', ''body'']"
    by (simp add: Post_def ex_attribute_def)
  moreover have "compileAttributesList (collectAttrs ex_no_fk_options Post) ex_all_scheme
       = Inr [''id'', ''title'', ''body'']"
    by (simp add: collect_Post_no_fk compileAttributesList_def expanded_include_def
        expanded_exclude_def ex_all_scheme_def expandAttributes_def attr_lookup_def mark_adhoc_def)
  ultimately show ?thesis by simp
qed

theorem all_fields_compiled:
  assumes "sch_include sch = None \<or> sch_include sch = Some [''@all'']"
    and "sch_exclude sch = None \<or> sch_exclude sch = Some []"
    and "distinct (map (fieldName \<circ> snd) (rawAttributes m))"
  shows "compileAttributesList (collectAttrs opts m) sch
     = Inr (map fieldName (filter (\<lambda>a. \<not> attr_rejected opts m a) (map snd (rawAttributes m))))"
proof -
  let ?attr = "collectAttrs opts m"
  have d: "distinct (all ?attr)"
    using assms(3) by (simp add: all_collectAttrs distinct_map_filter flip: map_map)
  hence "distinct (map EName (all ?attr))" by (simp add: distinct_map inj_on_def)
  hence inc: "expanded_include ?attr sch = map EName (all ?attr)"
    using assms(1) by (auto simp: expanded_include_def expand_all uniq_distinct)
  have exc: "expanded_exclude ?attr sch = []"
    using assms(2) by (auto simp: expanded_exclude_def expand_nil)
  have "compileAttributesList ?attr sch = Inr (all ?attr)"
    using compile_loop_fields [of "all ?attr" ?attr "[]"]
    by (simp add: compileAttributesList_def inc exc)
  thus ?thesis by (simp only: all_collectAttrs)
qed

theorem all_fields_compiled_witness:
  "(sch_include ex_all_scheme = None \<or> sch_include ex_all_scheme = Some [''@all''])
   \<and> (sch_exclude ex_all_scheme = None \<or> sch_exclude ex_all_scheme = Some [])
   \<and> distinct (map (fieldName \<circ> snd) (rawAttributes Post))
   \<and> attrFilter defaultOptions = None
   \<and> compileAttributesList (collectAttrs defaultOptions Post) ex_all_scheme
       = Inr [''id'', ''authorId'', ''title'', ''body'']"
proof -
  have h1: "sch_include ex_all_scheme = None \<or> sch_include ex_all_scheme = Some [''@all'']"
    and h2: "sch_exclude ex_all_scheme = None \<or> sch_exclude ex_all_scheme = Some []"
    by (simp_all add: ex_all_scheme_def)
  have h3: "distinct (map (fieldName \<circ> snd) (rawAttributes Post))"
    by (simp add: Post_def ex_attribute_def)
  have "attrFilter defaultOptions = None" by (simp add: defaultOptions_def)
  moreover have "map fieldName (filter (\<lambda>a. \<not> attr_rejected defaultOptions Post a)
       (map snd (rawAttributes Post))) = [''id'', ''authorId'', ''title'', ''body'']"
    by (simp add: attr_rejected_def defaultOptions_def Post_def ex_attribute_def)
  ultimately show ?thesis
    using all_fields_compiled [OF h1 h2 h3, of defaultOptions] h1 h2 h3 by simp
qed

lemma set_uniq: "set (uniq xs) = set xs"
  by (induction xs rule: uniq.induct) auto

lemma names_entry_names: "(\<forall>e \<in> set es. \<exists>n. e = EName n) \<Longrightarrow> map EName (entry_names es) = es"
  by (induction es rule: entry_names.induct) auto

lemma attr_lookup_group: "key \<in> set group_names \<Longrightarrow> \<exists>names. attr_lookup attr key = Own names"
  by (auto simp: group_names_def attr_lookup_def)

lemma expand_loop_names:
  "list_all known_selector l \<Longrightarrow> \<forall>e \<in> set result. \<exists>n. e = EName n
   \<Longrightarrow> \<forall>e \<in> set (expand_loop attr l result). \<exists>n. e = EName n"
proof (induction l arbitrary: result)
  case Nil
  then show ?case by simp
next
  case (Cons a l)
  show ?case
  proof (cases "take 1 a = ''@''")
    case True
    with Cons.prems(1) have "drop 1 a \<in> set group_names" by (simp add: known_selector_def)
    then obtain names where names: "attr_lookup attr (drop 1 a) = Own names"
      using attr_lookup_group by blast
    have "\<forall>e \<in> set (result @ result @ map EName names). \<exists>n. e = EName n"
      using Cons.prems(2) by auto
    from Cons.IH [OF _ this] Cons.prems(1) True names show ?thesis by simp
  next
    case False
    have "\<forall>e \<in> set (result @ [EName a]). \<exists>n. e = EName n"
      using Cons.prems(2) by auto
    from Cons.IH [OF _ this] Cons.prems(1) False show ?thesis by simp
  qed
qed

lemma expandAttributes_names:
  "list_all known_selector l \<Longrightarrow> map EName (entry_names (expandAttributes attr l)) = expandAttributes attr l"
  using expand_loop_names [of l "[]" attr]
  by (intro names_entry_names) (simp add: expandAttributes_def set_uniq)

lemma entry_names_map: "entry_names (map EName xs) = xs"
  by (induction xs) auto

lemma expanded_names:
  assumes "known_selectors sch"
  shows "map EName (entry_names (expanded_include attr sch)) = expanded_include attr sch"
    and "map EName (entry_names (expanded_exclude attr sch)) = expanded_exclude attr sch"
  using assms
  by (auto simp: known_selectors_def expanded_include_def expanded_exclude_def
      expandAttributes_names entry_names_map split: option.splits)

lemma compile_loop_names:
  "compile_loop attr (map EName inc) (map EName exc) acc
     = Inr (acc @ map (mark_adhoc attr) (filter (\<lambda>n. n \<notin> set exc) inc))"
  by (induction inc arbitrary: acc) auto

text \<open>
  Selectors of no group. A selector whose key the group table inherits compiles, without
  an error, to a dot followed by the text of the inherited member; a selector whose key
  reads \<open>undefined\<close> makes the compilation fail, unless the exclude list holds the
  same selector.
\<close>

lemma inherited_selector_compiled:
  "compileAttributesList empty_attr ex_inherited_selector
     = Inr [''.function toString() { [native code] }'', ''.[object Object]'']"
  by (simp add: compileAttributesList_def expanded_include_def expanded_exclude_def
      expandAttributes_def ex_inherited_selector_def attr_lookup_def prototype_read_def
      object_prototype_keys_def object_prototype_functions_def member_text_def)

lemma unknown_selector_fails:
  "compileAttributesList empty_attr ex_unknown_selector = Inl TypeError"
  by (simp add: compileAttributesList_def expanded_include_def expanded_exclude_def
      expandAttributes_def ex_unknown_selector_def attr_lookup_def prototype_read_def
      object_prototype_keys_def object_prototype_functions_def)

lemma unknown_selector_excluded:
  "compileAttributesList empty_attr ex_unknown_excluded = Inr [''.foo'']"
  by (simp add: compileAttributesList_def expanded_include_def expanded_exclude_def
      expandAttributes_def ex_unknown_excluded_def attr_lookup_def prototype_read_def
      object_prototype_keys_def object_prototype_functions_def mark_adhoc_def empty_attr_sel)

text \<open>
  Claim C3, as the source has it. The claim says that a name in both expanded lists is
  absent from the compiled list. The compiled list holds, for a surviving name that is
  neither an attribute nor an association and has no dot, the name behind a dot; so when
  \<open>foo\<close> survives and \<open>.foo\<close> is included and excluded, \<open>.foo\<close> is in the
  compiled list all the same. What holds, for a scheme whose selectors each name one of
  the eight groups: both expanded lists hold names only, the compilation succeeds, and
  the compiled list is the expanded include list without the names that the expanded
  exclude list holds, in the order of the include list, each name marked by
  \<open>mark_adhoc\<close>; and a name in both expanded lists is in the compiled list only as
  the dotted form of such a surviving name.
\<close>

theorem exclude_wins_counterexample:
  "EName ''.foo'' \<in> set (expanded_include empty_attr ex_dotted)
   \<and> EName ''.foo'' \<in> set (expanded_exclude empty_attr ex_dotted)
   \<and> compileAttributesList empty_attr ex_dotted = Inr [''.foo'']
   \<and> ''.foo'' \<in> set [''.foo'']"
  by (simp add: compileAttributesList_def expanded_include_def expanded_exclude_def
      expandAttributes_def ex_dotted_def mark_adhoc_def empty_attr_def)

theorem exclude_wins:
  assumes "known_selectors sch"
  shows "expanded_include attr sch = map EName (entry_names (expanded_include attr sch))
     \<and> expanded_exclude attr sch = map EName (entry_names (expanded_exclude attr sch))
     \<and> compileAttributesList attr sch
         = Inr (map (mark_adhoc attr)
                  (filter (\<lambda>n. n \<notin> set (entry_names (expanded_exclude attr sch)))
                     (entry_names (expanded_include attr sch))))
     \<and> (\<forall>res n. compileAttributesList attr sch = Inr res
            \<and> n \<in> set (entry_names (expanded_include attr sch))
            \<and> n \<in> set (entry_names (expanded_exclude attr sch))
            \<and> n \<in> set res
          \<longrightarrow> (\<exists>n'. n = ''.'' @ n' \<and> take 1 n' \<noteq> ''.''
                 \<and> n' \<notin> set (all attr) \<and> n' \<notin> set (assoc_group attr)
                 \<and> n' \<in> set (entry_names (expanded_include attr sch))
                 \<and> n' \<notin> set (entry_names (expanded_exclude attr sch))))"
proof -
  let ?inc = "entry_names (expanded_include attr sch)"
  let ?exc = "entry_names (expanded_exclude attr sch)"
  note names = expanded_names [OF assms, of attr]
  have compiled: "compileAttributesList attr sch
      = Inr (map (mark_adhoc attr) (filter (\<lambda>n. n \<notin> set ?exc) ?inc))"
    using compile_loop_names [of attr ?inc ?exc "[]"]
    by (simp add: compileAttributesList_def names)
  have "\<exists>n'. n = ''.'' @ n' \<and> take 1 n' \<noteq> ''.''
          \<and> n' \<notin> set (all attr) \<and> n' \<notin> set (assoc_group attr)
          \<and> n' \<in> set ?inc \<and> n' \<notin> set ?exc"
    if a: "compileAttributesList attr sch = Inr res \<and> n \<in> set ?inc \<and> n \<in> set ?exc \<and> n \<in> set res"
    for res n
  proof -
    from a compiled have "res = map (mark_adhoc attr) (filter (\<lambda>n. n \<notin> set ?exc) ?inc)"
      by simp
    with a obtain n' where n': "n = mark_adhoc attr n'" "n' \<in> set ?inc" "n' \<notin> set ?exc"
      by auto
    with a have "n \<noteq> n'" by auto
    with n' show ?thesis by (auto simp: mark_adhoc_def split: if_splits)
  qed
  with compiled names show ?thesis by (intro conjI allI impI) simp_all
qed

lemma expanded_selection:
  "expanded_include post_attr ex_selection
     = map EName [''id'', ''authorId'', ''title'', ''body'', ''author'', ''getUrl'']"
  "expanded_exclude post_attr ex_selection = map EName [''id'', ''authorId'']"
  by (simp_all add: expanded_include_def expanded_exclude_def ex_selection_def
      expandAttributes_def attr_lookup_def post_attr_def)

lemma expanded_dotted:
  "expanded_include empty_attr ex_dotted = map EName [''foo'', ''.foo'']"
  "expanded_exclude empty_attr ex_dotted = map EName [''.foo'']"
  by (simp_all add: expanded_include_def expanded_exclude_def ex_dotted_def expandAttributes_def)

lemma known_examples: "known_selectors ex_selection" "known_selectors ex_dotted"
  by (simp_all add: known_selectors_def known_selector_def group_names_def
      ex_selection_def ex_dotted_def)

theorem exclude_wins_witness:
  "known_selectors ex_selection \<and> known_selectors ex_dotted
   \<and> compileAttributesList post_attr ex_selection = Inr [''title'', ''body'', ''author'', ''.getUrl'']
   \<and> compileAttributesList empty_attr ex_dotted = Inr [''.foo'']
   \<and> ''.foo'' \<in> set (entry_names (expanded_include empty_attr ex_dotted))
   \<and> ''.foo'' \<in> set (entry_names (expanded_exclude empty_attr ex_dotted))
   \<and> ''.foo'' \<in> set [''.foo'']
   \<and> (\<exists>n'. ''.foo'' = ''.'' @ n' \<and> take 1 n' \<noteq> ''.''
          \<and> n' \<notin> set (all empty_attr) \<and> n' \<notin> set (assoc_group empty_attr)
          \<and> n' \<in> set (entry_names (expanded_include empty_attr ex_dotted))
          \<and> n' \<notin> set (entry_names (expanded_exclude empty_attr ex_dotted)))"
proof -
  have sel: "compileAttributesList post_attr ex_selection
      = Inr [''title'', ''body'', ''author'', ''.getUrl'']"
    using exclude_wins [OF known_examples(1), of post_attr]
    by (simp add: expanded_selection entry_names_map mark_adhoc_def post_attr_sel)
  have dot: "compileAttributesList empty_attr ex_dotted = Inr [''.foo'']"
    using exclude_wins [OF known_examples(2), of empty_attr]
    by (simp add: expanded_dotted entry_names_map mark_adhoc_def empty_attr_sel)
  have prem: "compileAttributesList empty_attr ex_dotted = Inr [''.foo'']
      \<and> ''.foo'' \<in> set (entry_names (expanded_include empty_attr ex_dotted))
      \<and> ''.foo'' \<in> set (entry_names (expanded_exclude empty_attr ex_dotted))
      \<and> ''.foo'' \<in> set [''.foo'']"
    using dot by (simp add: expanded_dotted entry_names_map)
  have "\<exists>n'. ''.foo'' = ''.'' @ n' \<and> take 1 n' \<noteq> ''.''
          \<and> n' \<notin> set (all empty_attr) \<and> n' \<notin> set (assoc_group empty_attr)
          \<and> n' \<in> set (entry_names (expanded_include empty_attr ex_dotted))
          \<and> n' \<notin> set (entry_names (expanded_exclude empty_attr ex_dotted))"
    using exclude_wins [OF known_examples(2), of empty_attr] prem by blast
  with sel prem known_examples show ?thesis by blast
qed

section \<open>Properties of \<open>serialize\<close>\<close>


















section \<open>The cache of a run\<close>

lemma cache_extends_refl: "cache_extends c c"
  by (simp add: cache_extends_def split: option.splits)

lemma obj_get_append_None: "obj_get (xs @ ys) k = None \<Longrightarrow> obj_get xs k = None"
  by (induction xs) (auto split: if_splits)

lemma cache_extends_trans:
  assumes "cache_extends a b" and "cache_extends b c"
  shows "cache_extends a c"
proof (cases a)
  case None
  with assms show ?thesis by (simp add: cache_extends_def)
next
  case (Some xs)
  with assms(1) obtain ys where b: "b = Some ys" and xy: "take (length xs) ys = xs"
    and ny: "\<forall>(k, s) \<in> set (drop (length xs) ys). obj_get xs k = None"
    by (auto simp: cache_extends_def split: option.splits)
  with assms(2) obtain zs where c: "c = Some zs" and yz: "take (length ys) zs = ys"
    and nz: "\<forall>(k, s) \<in> set (drop (length ys) zs). obj_get ys k = None"
    by (auto simp: cache_extends_def split: option.splits)
  obtain e1 where ys: "ys = xs @ e1" using xy by (metis append_take_drop_id)
  obtain e2 where zs: "zs = ys @ e2" using yz by (metis append_take_drop_id)
  have "drop (length xs) zs = e1 @ e2" by (simp add: ys zs)
  moreover have "\<forall>(k, s) \<in> set e1. obj_get xs k = None" using ny by (simp add: ys)
  moreover have "\<forall>(k, s) \<in> set e2. obj_get xs k = None"
    using nz obj_get_append_None [of xs e1] by (auto simp: ys zs)
  ultimately show ?thesis
    by (auto simp: cache_extends_def Some c ys zs)
qed

lemma obj_set_new: "obj_get kvs k = None \<Longrightarrow> obj_set k v kvs = kvs @ [(k, v)]"
  by (induction kvs) (auto split: if_splits)

lemma cache_store_extends:
  "cache_lookup cache k = None \<Longrightarrow> cache_extends cache (cache_store cache k s)"
  by (cases cache) (simp_all add: cache_extends_def cache_lookup_def cache_store_def obj_set_new)

lemma assoc_serializer_cases:
  "fst (assoc_serializer ctx e attr inst cache) = cache
   \<or> (cache_lookup cache (attrPath_of e attr) = None
      \<and> (\<exists>s. fst (assoc_serializer ctx e attr inst cache)
                = cache_store cache (attrPath_of e attr) s))"
  by (auto simp: assoc_serializer_def Let_def split: option.splits sum.splits)

lemma assoc_serializer_extends:
  "cache_extends cache (fst (assoc_serializer ctx e attr inst cache))"
  using assoc_serializer_cases [of ctx e attr inst cache]
  by (auto simp: cache_extends_refl cache_store_extends)

lemma cache_grows:
  shows "cache_extends cache (fst (serialize ctx e inst cache))"
    and "cache_extends cache (fst (serialize_loop ctx e inst attrs out cache))"
    and "cache_extends cache (fst (serializeValue ctx e attr v cache))"
    and "cache_extends cache (fst (serializeElems ctx e attr xs result cache))"
    and "cache_extends cache (fst (serializeAssoc ctx e attr inst cache))"
proof (induction ctx e inst cache and ctx e inst attrs out cache and ctx e attr v cache
    and ctx e attr xs result cache and ctx e attr inst cache
    rule: serialize_serialize_loop_serializeValue_serializeElems_serializeAssoc.induct)
  case (1 ctx e inst cache)
  then show ?case
    by (auto simp: serialize.simps cache_extends_refl split: prod.splits sum.splits)
next
  case (2 ctx e inst out cache)
  then show ?case by (simp add: cache_extends_refl)
next
  case (3 ctx e inst a rest out cache)
  show ?case
  proof (cases "is_undefined (raw_value e inst a)")
    case True
    with 3(3) show ?thesis
      by (auto simp: Let_def cache_extends_refl split: sum.splits)
  next
    case False
    obtain c1 r where sv: "serializeValue ctx e (attr_name e a) (raw_value e inst a) cache = (c1, r)"
      by (cases "serializeValue ctx e (attr_name e a) (raw_value e inst a) cache")
    from 3(1) [OF refl False] sv have le1: "cache_extends cache c1" by simp
    show ?thesis
    proof (cases r)
      case (Inl err)
      with False sv le1 show ?thesis by (simp add: Let_def)
    next
      case (Inr b)
      from 3(2) [OF refl False sv [symmetric] Inr]
      have "cache_extends c1 (fst (serialize_loop ctx e inst rest
              (obj_set (output_name e (attr_name e a)) b out) c1))" .
      with le1 False sv Inr show ?thesis
        by (auto simp: Let_def intro: cache_extends_trans)
    qed
  qed
next
  case (4 ctx e attr v cache)
  then show ?case
    by (auto simp: serializeValue.simps cache_extends_refl split: prod.splits sum.splits)
next
  case (5 ctx e attr result cache)
  then show ?case by (simp add: cache_extends_refl)
next
  case (6 ctx e attr x xs result cache)
  obtain c1 r where sv: "serializeValue ctx e attr x cache = (c1, r)"
    by (cases "serializeValue ctx e attr x cache")
  from 6(1) sv have le1: "cache_extends cache c1" by simp
  show ?case
  proof (cases r)
    case (Inl err)
    with sv le1 show ?thesis by simp
  next
    case (Inr b)
    from 6(2) [OF sv [symmetric] Inr] le1 sv Inr show ?thesis
      by (auto intro: cache_extends_trans)
  qed
next
  case (7 ctx e attr inst cache)
  obtain c1 r where as: "assoc_serializer ctx e attr inst cache = (c1, r)"
    by (cases "assoc_serializer ctx e attr inst cache")
  from assoc_serializer_extends [of cache ctx e attr inst] as
  have le1: "cache_extends cache c1" by simp
  show ?case
  proof (cases r)
    case (Inl err)
    with as le1 show ?thesis by (simp add: serializeAssoc.simps)
  next
    case (Inr s)
    from 7 [OF as [symmetric] Inr] le1 as Inr show ?thesis
      by (auto simp: serializeAssoc.simps intro: cache_extends_trans)
  qed
qed

text \<open>
  Claim C10. The cache a run is given only grows: the cache that \<open>serialize\<close> (and
  \<open>_serializeAssoc\<close>) leaves extends the cache it was given, whether the run returns
  or fails. \<open>_serializeAssoc\<close> leaves the cache as it is, or stores one serializer
  under the path of the association, and that only when the cache has no entry for the
  path; it then hands the cache to the \<open>serialize\<close> call of that serializer.
\<close>

theorem cache_monotone:
  "cache_extends cache (fst (serialize ctx e inst cache))
   \<and> cache_extends cache (fst (serializeAssoc ctx e attr v cache))
   \<and> (fst (assoc_serializer ctx e attr v cache) = cache
      \<or> cache_lookup cache (attrPath_of e attr) = None
        \<and> (\<exists>s. fst (assoc_serializer ctx e attr v cache) = cache_store cache (attrPath_of e attr) s))
   \<and> serializeAssoc ctx e attr v cache =
       (case assoc_serializer ctx e attr v cache of
          (cache', Inl err) \<Rightarrow> (cache', Inl err)
        | (cache', Inr s) \<Rightarrow> serialize ctx s v cache')"
  using cache_grows(1) [of cache ctx e inst] cache_grows(5) [of cache ctx e attr v]
    assoc_serializer_cases [of ctx e attr v cache]
  by (simp add: serializeAssoc.simps)

theorem cache_monotone_witness:
  "fst (serialize ex_ctx (author_engine defaultOptions) post_by_ann (Some []))
     = Some [(''author'', brief_engine defaultOptions)]
   \<and> cache_extends (Some []) (Some [(''author'', brief_engine defaultOptions)])
   \<and> fst (serialize ex_ctx (author_engine defaultOptions) post_by_ann
             (Some [(''author'', brief_engine defaultOptions)]))
     = Some [(''author'', brief_engine defaultOptions)]"
proof -
  have ctx: "ex_ctx = ex_ctx_with (Some policy_SKIP)"
    by (simp add: ex_ctx_def ex_ctx_with_def defaults_with_SKIP)
  have run: "fst (serialize ex_ctx (author_engine defaultOptions) post_by_ann (Some []))
     = Some [(''author'', brief_engine defaultOptions)]"
    using ann_run [of "Some policy_SKIP" "Some policy_SKIP"]
    by (simp add: ctx defaults_with_SKIP)
  have again: "fst (serialize ex_ctx (author_engine defaultOptions) post_by_ann
             (Some [(''author'', brief_engine defaultOptions)]))
     = Some [(''author'', brief_engine defaultOptions)]"
    unfolding ctx post_by_ann_def ann_def defaults_with_SKIP [symmetric] author_run author_child
    by (simp add: cache_lookup_def brief_run_ann [unfolded ann_def])
  from cache_monotone [of "Some []" ex_ctx "author_engine defaultOptions" post_by_ann]
  have "cache_extends (Some []) (Some [(''author'', brief_engine defaultOptions)])"
    by (simp add: run)
  with run again show ?thesis by simp
qed

section \<open>The default options and the serializers already constructed\<close>










section \<open>The effective options\<close>

lemma obj_get_append:
  "obj_get (xs @ ys) k = (case obj_get xs k of Some v \<Rightarrow> Some v | None \<Rightarrow> obj_get ys k)"
  by (induction xs) auto

lemma obj_get_defaulted:
  "obj_get (map ((\<lambda>(k, f). (k, f (sv k))) \<circ> map_prod id g) kvs) k
     = map_option (\<lambda>d. g d (sv k)) (obj_get kvs k)"
  by (induction kvs) auto

lemma obj_get_missing:
  "obj_get (filter (\<lambda>(k, v). obj_get kvs k = None) ys) k
     = (if obj_get kvs k = None then obj_get ys k else None)"
  by (induction ys) auto

lemma member_defaults_value:
  "member (defaults_value (VObject kvs) (VObject skvs)) k =
     (case obj_get kvs k of
        Some dk \<Rightarrow> defaults_value dk (member (VObject skvs) k)
      | None \<Rightarrow> member (VObject skvs) k)"
  by (simp add: obj_get_append obj_get_missing
      obj_get_defaulted [where sv = "\<lambda>k. case obj_get skvs k of None \<Rightarrow> VUndefined | Some v \<Rightarrow> v"]
      split: option.splits)

lemma defaults_value_not_object: "\<not> is_object s \<Longrightarrow> defaults_value (VObject kvs) s = VObject kvs"
  by (cases s) simp_all

lemma defaults_value_leaf: "is_leaf d \<Longrightarrow> defaults_value d s = d"
  by (cases d) simp_all

lemma value_at_undefined: "value_at VUndefined p = VUndefined"
  by (induction p) simp_all

lemma member_not_object: "\<not> is_object v \<Longrightarrow> member v k = VUndefined"
  by (cases v) simp_all

lemma open_path_undefined: "open_path v p \<Longrightarrow> value_at v p = VUndefined"
proof (induction p arbitrary: v)
  case Nil
  then show ?case by (cases v) simp_all
next
  case (Cons k ks)
  then show ?case by (cases v) (auto simp: value_at_undefined)
qed

lemma higher_hides:
  "is_leaf (value_at d p) \<Longrightarrow> value_at (defaults_value d s) p = value_at d p"
proof (induction p arbitrary: d s)
  case Nil
  then show ?case by (simp add: defaults_value_leaf)
next
  case (Cons k ks)
  show ?case
  proof (cases d)
    case (VObject kvs)
    show ?thesis
    proof (cases s)
      case s: (VObject skvs)
      from Cons.prems VObject obtain dk where dk: "obj_get kvs k = Some dk"
        by (cases "obj_get kvs k") (simp_all add: value_at_undefined)
      with Cons.prems VObject have "is_leaf (value_at dk ks)" by simp
      from Cons.IH [OF this] dk VObject s show ?thesis
        by (simp add: member_defaults_value del: defaults_value.simps)
    qed (simp_all add: VObject)
  qed (use Cons.prems in \<open>simp_all add: value_at_undefined\<close>)
qed

lemma lower_fills:
  "open_path d p \<Longrightarrow> value_at (defaults_value d s) p = value_at s p"
proof (induction p arbitrary: d s)
  case Nil
  then show ?case by (cases d) simp_all
next
  case (Cons k ks)
  show ?case
  proof (cases d)
    case (VObject kvs)
    with Cons.prems have op: "open_path (member d k) ks" by simp
    show ?thesis
    proof (cases "is_object s")
      case True
      then obtain skvs where s: "s = VObject skvs" by (cases s) simp_all
      show ?thesis
      proof (cases "obj_get kvs k")
        case None
        with VObject s show ?thesis by (simp add: member_defaults_value del: defaults_value.simps)
      next
        case (Some dk)
        with op VObject have "open_path dk ks" by simp
        from Cons.IH [OF this] Some VObject s show ?thesis
          by (simp add: member_defaults_value del: defaults_value.simps)
      qed
    next
      case False
      with VObject op show ?thesis
        by (simp add: defaults_value_not_object member_not_object value_at_undefined
            open_path_undefined del: defaults_value.simps)
    qed
  qed (use Cons.prems in simp_all)
qed

lemma open_path_defaults:
  "open_path d p \<Longrightarrow> open_path s p \<Longrightarrow> open_path (defaults_value d s) p"
proof (induction p arbitrary: d s)
  case Nil
  then show ?case by (cases d) simp_all
next
  case (Cons k ks)
  show ?case
  proof (cases d)
    case (VObject kvs)
    with Cons.prems have op: "open_path (member d k) ks" by simp
    show ?thesis
    proof (cases "is_object s")
      case True
      then obtain skvs where s: "s = VObject skvs" by (cases s) simp_all
      with Cons.prems(2) have os: "open_path (member s k) ks" by simp
      have obj: "is_object (defaults_value (VObject kvs) (VObject skvs))" by simp
      show ?thesis
      proof (cases "obj_get kvs k")
        case None
        with VObject s os obj show ?thesis
          by (simp add: member_defaults_value del: defaults_value.simps)
      next
        case (Some dk)
        with op VObject have "open_path dk ks" by simp
        from Cons.IH [OF this os] Some VObject s obj show ?thesis
          by (simp add: member_defaults_value del: defaults_value.simps)
      qed
    next
      case False
      with VObject Cons.prems(1) show ?thesis
        by (simp add: defaults_value_not_object del: defaults_value.simps)
    qed
  qed (use Cons.prems in simp_all)
qed


lemma foldl_leaf_stable:
  "is_leaf (value_at d p) \<Longrightarrow> value_at (foldl defaults_value d ss) p = value_at d p"
  by (induction ss arbitrary: d) (simp_all add: higher_hides)

lemma foldl_open:
  "open_path d p \<Longrightarrow> \<forall>u \<in> set ss. open_path u p \<Longrightarrow> open_path (foldl defaults_value d ss) p"
  by (induction ss arbitrary: d) (simp_all add: open_path_defaults)

lemma open_path_VUndefined: "open_path VUndefined p"
  by (cases p) simp_all

lemma precedence_of_values:
  assumes "vs = pre @ v # post" and "\<forall>u \<in> set pre. open_path u p" and "is_leaf (value_at v p)"
  shows "value_at (foldl defaults_value VUndefined vs) p = value_at v p"
proof -
  have "open_path (foldl defaults_value VUndefined pre) p"
    using assms(2) by (simp add: foldl_open open_path_VUndefined)
  hence "value_at (defaults_value (foldl defaults_value VUndefined pre) v) p = value_at v p"
    by (rule lower_fills)
  with assms(3) show ?thesis
    by (simp add: assms(1) foldl_leaf_stable)
qed

lemma nothing_set:
  "\<forall>u \<in> set vs. open_path u p \<Longrightarrow> value_at (foldl defaults_value VUndefined vs) p = VUndefined"
  by (simp add: foldl_open open_path_VUndefined open_path_undefined)

lemma defaults_value_undefined: "defaults_value d VUndefined = d"
  by (cases d) simp_all

lemma option_value_defaults_field:
  "option_value (defaults_field d s) = defaults_value (option_value d) (option_value s)"
  by (simp add: defaults_field_def option_value_def split: option.splits)

lemma value_key_step:
  "key \<in> set value_keys
   \<Longrightarrow> option_value (key (defaults_options dest src))
       = defaults_value (option_value (key dest)) (source_value key src)"
  by (cases src)
     (auto simp: value_keys_def defaults_options_def source_value_def defaults_value_undefined
        option_value_defaults_field)

lemma value_key_fold:
  "key \<in> set value_keys
   \<Longrightarrow> option_value (key (foldl defaults_options dest srcs))
       = foldl defaults_value (option_value (key dest)) (map (source_value key) srcs)"
  by (induction srcs arbitrary: dest) (simp_all add: value_key_step)

lemma value_key_defaultsDeep:
  "key \<in> set value_keys
   \<Longrightarrow> source_value key (Some (defaultsDeep srcs))
       = foldl defaults_value VUndefined (map (source_value key) srcs)"
  using value_key_fold [of key no_options srcs]
  by (auto simp: defaultsDeep_def source_value_def value_keys_def no_options_def option_value_def)

lemma defaults_fun_simps: "defaults_fun None s = s" "defaults_fun (Some x) s = Some x"
  by (simp_all add: defaults_fun_def)

lemma defaults_fun_Some: "foldl defaults_fun (Some x) vs = Some x"
  by (induction vs) (simp_all add: defaults_fun_simps)

lemma first_set_fold: "foldl defaults_fun None vs = first_set vs"
proof (induction vs)
  case (Cons v vs)
  then show ?case by (cases v) (simp_all add: defaults_fun_simps defaults_fun_Some)
qed simp

lemma function_key_step:
  "encoder (defaults_options dest src) = defaults_fun (encoder dest) (source_fun encoder src)"
  "attrFilter (defaults_options dest src) = defaults_fun (attrFilter dest) (source_fun attrFilter src)"
  by (cases src; simp add: defaults_options_def source_fun_def defaults_fun_def split: option.splits)+

lemma encoder_fold:
  "encoder (foldl defaults_options dest srcs)
     = foldl defaults_fun (encoder dest) (map (source_fun encoder) srcs)"
  by (induction srcs arbitrary: dest) (simp_all add: function_key_step)

lemma attrFilter_fold:
  "attrFilter (foldl defaults_options dest srcs)
     = foldl defaults_fun (attrFilter dest) (map (source_fun attrFilter) srcs)"
  by (induction srcs arbitrary: dest) (simp_all add: function_key_step)

lemma function_keys_defaultsDeep:
  "encoder (defaultsDeep srcs) = first_set (map (source_fun encoder) srcs)"
  "attrFilter (defaultsDeep srcs) = first_set (map (source_fun attrFilter) srcs)"
  by (simp_all add: defaultsDeep_def encoder_fold attrFilter_fold no_options_def first_set_fold)

lemma Serializer_options:
  "Serializer defaults m scheme opts = Inr e
   \<Longrightarrow> e_options e = defaultsDeep (option_sources opts (e_scheme e) m defaults)"
  by (auto simp: Serializer_def Let_def option_sources_def
      split: if_splits prod.splits option.splits sum.splits)


text \<open>
  Claim C4. The effective options of a serializer are the deep merge of the options
  given to the constructor, the options of the resolved scheme, the model-wide options
  and the default options, in this order of precedence. For the options that hold a
  function the first source that has one decides. For the other options, along every
  path of keys: a value that a source sets is the effective value when the sources
  before it set nothing on the path, whatever the sources after it hold; and where no
  source sets anything, nothing is set. So a key that is absent above falls through, down
  to the defaults.
\<close>

theorem options_precedence:
  assumes "Serializer defaults m scheme opts = Inr e"
  shows "e_options e = defaultsDeep (option_sources opts (e_scheme e) m defaults)
   \<and> encoder (e_options e)
       = first_set (map (source_fun encoder) (option_sources opts (e_scheme e) m defaults))
   \<and> attrFilter (e_options e)
       = first_set (map (source_fun attrFilter) (option_sources opts (e_scheme e) m defaults))
   \<and> (\<forall>key \<in> set value_keys. \<forall>pre src post p.
         option_sources opts (e_scheme e) m defaults = pre @ src # post
         \<and> (\<forall>u \<in> set pre. open_path (source_value key u) p)
         \<and> is_leaf (value_at (source_value key src) p)
         \<longrightarrow> value_at (source_value key (Some (e_options e))) p = value_at (source_value key src) p)
   \<and> (\<forall>key \<in> set value_keys. \<forall>p.
         (\<forall>u \<in> set (option_sources opts (e_scheme e) m defaults). open_path (source_value key u) p)
         \<longrightarrow> value_at (source_value key (Some (e_options e))) p = VUndefined)"
proof -
  let ?srcs = "option_sources opts (e_scheme e) m defaults"
  have eff: "e_options e = defaultsDeep ?srcs"
    using assms by (rule Serializer_options)
  have hides: "value_at (source_value key (Some (e_options e))) p = value_at (source_value key src) p"
    if "key \<in> set value_keys" and "?srcs = pre @ src # post"
      and "\<forall>u \<in> set pre. open_path (source_value key u) p"
      and "is_leaf (value_at (source_value key src) p)"
    for key pre src post p
  proof -
    have "map (source_value key) ?srcs
        = map (source_value key) pre @ source_value key src # map (source_value key) post"
      by (simp add: that(2))
    from precedence_of_values [OF this _ that(4)] that(1,3) show ?thesis
      by (simp add: eff value_key_defaultsDeep)
  qed
  have none: "value_at (source_value key (Some (e_options e))) p = VUndefined"
    if "key \<in> set value_keys" and "\<forall>u \<in> set ?srcs. open_path (source_value key u) p"
    for key p
    using that nothing_set [of "map (source_value key) ?srcs" p]
    by (simp add: eff value_key_defaultsDeep)
  show ?thesis
  proof (intro conjI ballI allI impI)
    show "e_options e = defaultsDeep ?srcs" by (rule eff)
    show "encoder (e_options e) = first_set (map (source_fun encoder) ?srcs)"
      by (simp add: eff function_keys_defaultsDeep)
    show "attrFilter (e_options e) = first_set (map (source_fun attrFilter) ?srcs)"
      by (simp add: eff function_keys_defaultsDeep)
  next
    fix key pre src post p
    assume "key \<in> set value_keys"
      and "?srcs = pre @ src # post
         \<and> (\<forall>u \<in> set pre. open_path (source_value key u) p)
         \<and> is_leaf (value_at (source_value key src) p)"
    thus "value_at (source_value key (Some (e_options e))) p = value_at (source_value key src) p"
      using hides by blast
  next
    fix key p
    assume "key \<in> set value_keys"
      and "\<forall>u \<in> set ?srcs. open_path (source_value key u) p"
    thus "value_at (source_value key (Some (e_options e))) p = VUndefined"
      using none by blast
  qed
qed

lemma ex_options_scheme_sel:
  "sch_include ex_options_scheme = None" "sch_exclude ex_options_scheme = None"
  "sch_options ex_options_scheme = Some ex_scheme_options"
  by (simp_all add: ex_options_scheme_def)

lemma ex_options_constructed:
  "\<exists>e. Serializer defaultOptions Post (RefObject ex_options_scheme) (Some ex_ctor_options) = Inr e
       \<and> e_scheme e = ex_options_scheme"
  by (simp add: Serializer_def Let_def resolve_scheme_def Post_simps
      compile_no_lists ex_options_scheme_sel)

lemma ex_sources:
  "option_sources (Some ex_ctor_options) ex_options_scheme Post defaultOptions
     = [Some ex_ctor_options] @ Some ex_scheme_options # [None, Some defaultOptions]"
  by (simp add: option_sources_def ex_options_scheme_sel Post_simps)

lemma ex_source_values:
  "source_value undefinedPolicy (Some ex_ctor_options) = VUndefined"
  "source_value undefinedPolicy (Some ex_scheme_options) = policy_FAIL"
  "source_value encoderOptions (Some ex_ctor_options) = VObject [(''indent'', VNum 2)]"
  "source_value encoderOptions (Some ex_scheme_options)
     = VObject [(''blobEncoding'', VStr ''hex''), (''indent'', VNum 4)]"
  "source_value encoderOptions (Some defaultOptions) = VObject [(''blobEncoding'', VStr ''base64'')]"
  "source_value key None = VUndefined"
  by (simp_all add: source_value_def option_value_def ex_ctor_options_def ex_scheme_options_def
      no_options_def defaultOptions_def)

lemma ex_source_funs:
  "source_fun encoder (Some ex_ctor_options) = None"
  "source_fun encoder (Some ex_scheme_options) = None"
  "source_fun encoder None = None"
  "source_fun encoder (Some defaultOptions) = Some encodeToJSON"
  by (simp_all add: source_fun_def ex_ctor_options_def ex_scheme_options_def no_options_def
      defaultOptions_def)

theorem options_precedence_witness:
  "\<exists>e. Serializer defaultOptions Post (RefObject ex_options_scheme) (Some ex_ctor_options) = Inr e
     \<and> value_at (source_value undefinedPolicy (Some (e_options e))) [] = policy_FAIL
     \<and> value_at (source_value encoderOptions (Some (e_options e))) [''blobEncoding''] = VStr ''hex''
     \<and> value_at (source_value encoderOptions (Some (e_options e))) [''missing''] = VUndefined
     \<and> encoder (e_options e) = Some encodeToJSON"
proof -
  from ex_options_constructed obtain e where
    e: "Serializer defaultOptions Post (RefObject ex_options_scheme) (Some ex_ctor_options) = Inr e"
    and sch: "e_scheme e = ex_options_scheme" by blast
  note pr = options_precedence [OF e, unfolded sch]
  have k1: "undefinedPolicy \<in> set value_keys" and k2: "encoderOptions \<in> set value_keys"
    by (simp_all add: value_keys_def)
  have "value_at (source_value undefinedPolicy (Some (e_options e))) []
      = value_at (source_value undefinedPolicy (Some ex_scheme_options)) []"
    using pr k1 ex_sources
    by (elim conjE) (drule (1) bspec, erule allE [of _ "[Some ex_ctor_options]"],
        erule allE [of _ "Some ex_scheme_options"], erule allE [of _ "[None, Some defaultOptions]"],
        erule allE [of _ "[]"], simp add: ex_source_values policy_FAIL_def)
  hence a: "value_at (source_value undefinedPolicy (Some (e_options e))) [] = policy_FAIL"
    by (simp add: ex_source_values)
  have "value_at (source_value encoderOptions (Some (e_options e))) [''blobEncoding'']
      = value_at (source_value encoderOptions (Some ex_scheme_options)) [''blobEncoding'']"
    using pr k2 ex_sources
    by (elim conjE) (drule (1) bspec, erule allE [of _ "[Some ex_ctor_options]"],
        erule allE [of _ "Some ex_scheme_options"], erule allE [of _ "[None, Some defaultOptions]"],
        erule allE [of _ "[''blobEncoding'']"], simp add: ex_source_values)
  hence b: "value_at (source_value encoderOptions (Some (e_options e))) [''blobEncoding''] = VStr ''hex''"
    by (simp add: ex_source_values)
  have c: "value_at (source_value encoderOptions (Some (e_options e))) [''missing''] = VUndefined"
    using pr k2
    by (elim conjE) (drule (1) bspec [where P = "\<lambda>key. \<forall>p. _ key p"],
        erule allE [of _ "[''missing'']"], simp add: ex_sources ex_source_values)
  have "encoder (e_options e) = first_set (map (source_fun encoder)
      (option_sources (Some ex_ctor_options) ex_options_scheme Post defaultOptions))"
    using pr by blast
  hence d: "encoder (e_options e) = Some encodeToJSON"
    by (simp add: ex_sources ex_source_funs)
  from e a b c d show ?thesis by blast
qed

section \<open>Serializing with a shared cache\<close>

inductive_cases coherent_instE: "coherent_inst G ctx e inst"


















section \<open>\<open>deepMerge\<close> and its sources\<close>























end
